theory Spec2Isabelle
  imports Complex_Main
begin

section \<open>Values that cross the HTTP boundary\<close>

text \<open>
  The backend of \<^verbatim>\<open>BackEnd/src\<close> is a Fastify server whose routes validate their input
  with Zod schemas (\<^verbatim>\<open>schemas.ts\<close>) and then issue Prisma calls (\<^verbatim>\<open>server.ts\<close>).
  A JSON body and a parsed query string are both JavaScript objects; a value of such an
  object is modelled by \<open>json\<close>, and the object itself by a map from keys to values
  (a key that is absent is \<open>None\<close>, JavaScript's \<^verbatim>\<open>undefined\<close>).
  A decimal of the database is a rational and a date is its time stamp in milliseconds.
  A JavaScript number is \<^verbatim>\<open>NaN\<close>, finite (a rational stands for the double) or an
  infinity. Strings are HOL strings; the accented letters of the Portuguese messages are
  written without their accents.
\<close>

type_synonym decimal = rat
type_synonym date = int

datatype json =
    JNull
  | JBool bool
  | JNum decimal
  | JStr string
  | JArr "json list"

type_synonym jobject = "string \<Rightarrow> json option"

datatype js_number = NaN | Finite rat | PlusInfinity | MinusInfinity

section \<open>Regular expressions of \<^verbatim>\<open>schemas.ts\<close>\<close>

text \<open>
  The fragment of JavaScript regular expressions the schemas use: a character class,
  alternation, sequence and the counted repetition \<^verbatim>\<open>r{n}\<close>. \<open>rx_match r s\<close> lists
  what is left of \<open>s\<close> after each way of matching \<open>r\<close> at its start; a pattern
  written between \<^verbatim>\<open>^\<close> and \<^verbatim>\<open>$\<close> (no flags) holds of \<open>s\<close> when some way leaves nothing.
\<close>

datatype rx =
    Cls "char \<Rightarrow> bool"
  | Alt rx rx
  | Seq rx rx
  | Rep rx nat

primrec rx_times :: "nat \<Rightarrow> (string \<Rightarrow> string list) \<Rightarrow> string \<Rightarrow> string list" where
  "rx_times 0 m s = [s]"
| "rx_times (Suc n) m s = concat (map (rx_times n m) (m s))"

primrec rx_match :: "rx \<Rightarrow> string \<Rightarrow> string list" where
  "rx_match (Cls p) = (\<lambda>s. case s of [] \<Rightarrow> [] | c # cs \<Rightarrow> if p c then [cs] else [])"
| "rx_match (Alt a b) = (\<lambda>s. rx_match a s @ rx_match b s)"
| "rx_match (Seq a b) = (\<lambda>s. concat (map (rx_match b) (rx_match a s)))"
| "rx_match (Rep a n) = rx_times n (rx_match a)"

definition rx_test_anchored :: "rx \<Rightarrow> string \<Rightarrow> bool" where
  "rx_test_anchored r s = list_ex (\<lambda>rest. rest = []) (rx_match r s)"

text \<open>The class \<^verbatim>\<open>\d\<close>: the ten ASCII digits.\<close>

definition is_digit :: "char \<Rightarrow> bool" where
  "is_digit c = (c \<in> set ''0123456789'')"

text \<open>\<^verbatim>\<open>/^(\d{11}|\d{14})$/\<close>, the pattern of \<^verbatim>\<open>cpf_cnpj\<close>.\<close>

definition cpf_cnpj_regex :: rx where
  "cpf_cnpj_regex = Alt (Rep (Cls is_digit) 11) (Rep (Cls is_digit) 14)"

section \<open>Schemas of \<^verbatim>\<open>schemas.ts\<close>\<close>

text \<open>
  A schema either accepts its input and returns the parsed value (\<open>Inr\<close>) or
  rejects it with the messages of the failed checks (\<open>Inl\<close>). The checks chained on
  a \<^verbatim>\<open>z.string()\<close> all run, each adding its message when it fails.
\<close>

type_synonym 'a parsed = "string list + 'a"

definition createClienteSchema_cpf_cnpj_checks :: "string \<Rightarrow> string list" where
  "createClienteSchema_cpf_cnpj_checks s =
     (if length s < 11 then [''CPF/CNPJ deve ter entre 11 e 18 caracteres.''] else []) @
     (if 18 < length s then [''CPF/CNPJ deve ter entre 11 e 18 caracteres.''] else []) @
     (if rx_test_anchored cpf_cnpj_regex s then []
      else [''Formato de CPF/CNPJ invalido. Forneca 11 digitos para CPF ou 14 para CNPJ, apenas numeros.''])"

definition createClienteSchema_cpf_cnpj :: "json option \<Rightarrow> string parsed" where
  "createClienteSchema_cpf_cnpj v =
     (case v of
        None \<Rightarrow> Inl [''CPF/CNPJ e obrigatorio.'']
      | Some (JStr s) \<Rightarrow>
          (if createClienteSchema_cpf_cnpj_checks s = [] then Inr s
           else Inl (createClienteSchema_cpf_cnpj_checks s))
      | Some _ \<Rightarrow> Inl [''Expected string''])"

definition updateClienteSchema_cpf_cnpj_checks :: "string \<Rightarrow> string list" where
  "updateClienteSchema_cpf_cnpj_checks s =
     (if length s < 11 then [''String must contain at least 11 character(s)''] else []) @
     (if 18 < length s then [''String must contain at most 18 character(s)''] else []) @
     (if rx_test_anchored cpf_cnpj_regex s then [] else [''Invalid''])"

definition updateClienteSchema_cpf_cnpj :: "json option \<Rightarrow> string option parsed" where
  "updateClienteSchema_cpf_cnpj v =
     (case v of
        None \<Rightarrow> Inr None
      | Some (JStr s) \<Rightarrow>
          (if updateClienteSchema_cpf_cnpj_checks s = [] then Inr (Some s)
           else Inl (updateClienteSchema_cpf_cnpj_checks s))
      | Some _ \<Rightarrow> Inl [''Expected string''])"

text \<open>
  \<^verbatim>\<open>buscarClienteQuerySchema\<close>: two optional strings, then two refinements on the
  parsed object. The refinements read \<^verbatim>\<open>!!data.nome_completo\<close> and
  \<^verbatim>\<open>!!data.cpf_cnpj\<close>, the truthiness of the fields: \<open>truthy\<close>. A field that is not
  a string (a key repeated in the query string is an array) fails the object, and the
  refinements do not run.
\<close>

record buscar_query =
  nome_completo :: "string option"
  cpf_cnpj :: "string option"

definition z_string_optional :: "json option \<Rightarrow> string option parsed" where
  "z_string_optional v =
     (case v of
        None \<Rightarrow> Inr None
      | Some (JStr s) \<Rightarrow> Inr (Some s)
      | Some _ \<Rightarrow> Inl [''Expected string''])"

definition truthy :: "string option \<Rightarrow> bool" where
  "truthy v = (case v of None \<Rightarrow> False | Some s \<Rightarrow> s \<noteq> [])"

definition buscar_refinements :: "buscar_query \<Rightarrow> string list" where
  "buscar_refinements data =
     (if truthy (buscar_query.nome_completo data) \<or> truthy (buscar_query.cpf_cnpj data) then []
      else [''Forneca 'nome_completo' ou 'cpf_cnpj' para a busca.'']) @
     (if \<not> (truthy (buscar_query.nome_completo data) \<and> truthy (buscar_query.cpf_cnpj data)) then []
      else [''Forneca apenas 'nome_completo' OU 'cpf_cnpj' para a busca, nao ambos simultaneamente.''])"

definition buscarClienteQuerySchema :: "jobject \<Rightarrow> buscar_query parsed" where
  "buscarClienteQuerySchema q =
     (case (z_string_optional (q ''nome_completo''), z_string_optional (q ''cpf_cnpj'')) of
        (Inr n, Inr c) \<Rightarrow>
          (let data = \<lparr>buscar_query.nome_completo = n, buscar_query.cpf_cnpj = c\<rparr>
           in if buscar_refinements data = [] then Inr data else Inl (buscar_refinements data))
      | (Inl e, Inr c) \<Rightarrow> Inl e
      | (Inr n, Inl e) \<Rightarrow> Inl e
      | (Inl e1, Inl e2) \<Rightarrow> Inl (e1 @ e2))"



text \<open>
  The objects the other schemas return (their \<^verbatim>\<open>z.infer\<close> types). A key that the input
  does not have is absent from the object a schema returns, and a key that the schema does
  not declare is dropped: an optional field is an \<open>option\<close>, and the records have no
  other field. A number that \<^verbatim>\<open>z.number()\<close> has accepted is not \<^verbatim>\<open>NaN\<close>; it may be
  \<^verbatim>\<open>Infinity\<close>, which is positive.
\<close>

record create_cliente_input =
  nome_completo :: string
  cpf_cnpj :: string
  telefone :: string
  data_nascimento :: date
  email :: string

record update_cliente_input =
  nome_completo :: "string option"
  cpf_cnpj :: "string option"
  telefone :: "string option"
  data_nascimento :: "date option"
  email :: "string option"

text \<open>\<^verbatim>\<open>descricao\<close> of \<^verbatim>\<open>updateAcaoSchema\<close> is optional and nullable: \<open>Some None\<close> is \<^verbatim>\<open>null\<close>.\<close>

record update_acao_input =
  nome_ativo :: "string option"
  codigo_ticker :: "string option"
  valor_atual :: "js_number option"
  tipo_ativo :: "string option"
  descricao :: "string option option"

record create_alocacao_input =
  acaoId :: int
  quantidade :: js_number
  valor_medio_aquisicao :: js_number
  data_ultima_compra :: date

record update_alocacao_input =
  quantidade :: "js_number option"
  valor_medio_aquisicao :: "js_number option"
  data_ultima_compra :: "date option"

text \<open>\<^verbatim>\<open>.positive()\<close> and \<^verbatim>\<open>.nonnegative()\<close> of a number.\<close>

definition js_positive :: "js_number \<Rightarrow> bool" where
  "js_positive n = (case n of Finite r \<Rightarrow> 0 < r | PlusInfinity \<Rightarrow> True | _ \<Rightarrow> False)"

definition js_nonnegative :: "js_number \<Rightarrow> bool" where
  "js_nonnegative n = (case n of Finite r \<Rightarrow> 0 \<le> r | PlusInfinity \<Rightarrow> True | _ \<Rightarrow> False)"

text \<open>
  \<^verbatim>\<open>updateAlocacaoSchema\<close>. \<^verbatim>\<open>z.coerce.number()\<close> applies JavaScript's \<^verbatim>\<open>Number\<close> and
  \<^verbatim>\<open>z.coerce.date()\<close> applies \<^verbatim>\<open>new Date\<close> to the value of a key that is present; the two
  conversions belong to the language, so the schema takes them as \<open>toNumber\<close> and
  \<open>toDate\<close> (\<open>None\<close> for an invalid date).
\<close>

definition issues :: "'a parsed \<Rightarrow> string list" where
  "issues r = (case r of Inl e \<Rightarrow> e | Inr _ \<Rightarrow> [])"

definition updateAlocacaoSchema ::
  "(json \<Rightarrow> js_number) \<Rightarrow> (json \<Rightarrow> date option) \<Rightarrow> jobject \<Rightarrow> update_alocacao_input parsed" where
  "updateAlocacaoSchema toNumber toDate b =
     (let q = (case b ''quantidade'' of
                 None \<Rightarrow> Inr None
               | Some v \<Rightarrow>
                   if toNumber v = NaN then Inl [''Expected number, received nan'']
                   else if js_positive (toNumber v) then Inr (Some (toNumber v))
                   else Inl [''Quantidade deve ser positiva.'']);
          p = (case b ''valor_medio_aquisicao'' of
                 None \<Rightarrow> Inr None
               | Some v \<Rightarrow>
                   if toNumber v = NaN then Inl [''Expected number, received nan'']
                   else if js_nonnegative (toNumber v) then Inr (Some (toNumber v))
                   else Inl [''Valor medio de aquisicao nao pode ser negativo.'']);
          d = (case b ''data_ultima_compra'' of
                 None \<Rightarrow> Inr None
               | Some v \<Rightarrow>
                   (case toDate v of
                      None \<Rightarrow> Inl [''Data da ultima compra invalida.'']
                    | Some t \<Rightarrow> Inr (Some t)))
      in case (q, p, d) of
           (Inr q', Inr p', Inr d') \<Rightarrow>
             Inr \<lparr>update_alocacao_input.quantidade = q',
                  update_alocacao_input.valor_medio_aquisicao = p',
                  update_alocacao_input.data_ultima_compra = d'\<rparr>
         | _ \<Rightarrow> Inl (issues q @ issues p @ issues d))"

section \<open>The persistence layer\<close>

text \<open>
  The three models of \<^verbatim>\<open>prisma/schema.prisma\<close> (in the sources it follows
  \<^verbatim>\<open>BackEnd/tsconfig.json\<close>). Every id and every reference is an \<^verbatim>\<open>Int\<close> column;
  \<^verbatim>\<open>valor_atual\<close> is \<^verbatim>\<open>Decimal(10, 2)\<close>, \<^verbatim>\<open>quantidade\<close> \<^verbatim>\<open>Decimal(18, 4)\<close> and
  \<^verbatim>\<open>valor_medio_aquisicao\<close> \<^verbatim>\<open>Decimal(12, 2)\<close>; the dates are \<^verbatim>\<open>@db.Date\<close> columns.
  The handlers reach the rows through the Prisma client only.
\<close>

record cliente =
  id :: int
  nome_completo :: string
  cpf_cnpj :: string
  telefone :: string
  data_nascimento :: date
  email :: string

record acao =
  id :: int
  nome_ativo :: string
  codigo_ticker :: string
  valor_atual :: decimal
  tipo_ativo :: "string option"
  descricao :: "string option"

record alocacao =
  id :: int
  clienteId :: int
  acaoId :: int
  quantidade :: decimal
  valor_medio_aquisicao :: decimal
  data_ultima_compra :: date

text \<open>The \<^verbatim>\<open>select\<close> of the list-allocations route: four fields of the asset.\<close>

record acao_select =
  id :: int
  nome_ativo :: string
  codigo_ticker :: string
  valor_atual :: decimal

datatype model = Cliente | Acao | AlocacaoCliente

datatype operation = Create | FindMany | FindUnique | FindFirst | Update | Delete

type_synonym call = "model \<times> operation"

text \<open>
  The database: the tables in the order the engine returns their rows, the sequences of
  the generated ids, and \<open>log\<close>, the persistence calls made so far (every operation
  below records itself there, so that "no persistence call" is a statement about \<open>log\<close>).
  \<open>db_date\<close> is what a \<^verbatim>\<open>@db.Date\<close> column keeps of the time stamp of a JavaScript
  \<^verbatim>\<open>Date\<close>, \<open>None\<close> for a time stamp that the client or the engine refuses: the
  sources do not say which time stamps are taken, so the database carries the function.
\<close>

record state =
  clientes :: "cliente list"
  acoes :: "acao list"
  alocacoes :: "alocacao list"
  seq_cliente :: int
  seq_alocacao :: int
  db_date :: "date \<Rightarrow> date option"
  log :: "call list"

text \<open>
  What a call throws. The handlers tell a \<^verbatim>\<open>PrismaClientKnownRequestError\<close> by its
  \<^verbatim>\<open>code\<close> and read its \<^verbatim>\<open>meta.target\<close>; \<open>OtherError\<close> is any throwable that is not
  a known request error with one of the codes they test.
\<close>

datatype thrown = PrismaClientKnownRequestError string "string list option" | OtherError

text \<open>\<^verbatim>\<open>error instanceof Prisma.PrismaClientKnownRequestError && error.code === c\<close>.\<close>

definition has_code :: "string \<Rightarrow> thrown \<Rightarrow> bool" where
  "has_code c e = (case e of PrismaClientKnownRequestError code target \<Rightarrow> code = c | OtherError \<Rightarrow> False)"

text \<open>\<^verbatim>\<open>error.meta?.target\<close>.\<close>

definition meta_target :: "thrown \<Rightarrow> string list option" where
  "meta_target e = (case e of PrismaClientKnownRequestError code target \<Rightarrow> target | OtherError \<Rightarrow> None)"

definition record_call :: "call \<Rightarrow> state \<Rightarrow> state" where
  "record_call c s = s\<lparr>log := log s @ [c]\<rparr>"

subsection \<open>Values of the columns\<close>

text \<open>
  An \<^verbatim>\<open>Int\<close> column is a 32-bit signed integer: the client refuses a number outside
  that range, in a filter as in a row.
\<close>

definition int4 :: "int \<Rightarrow> bool" where
  "int4 i = (- 2147483648 \<le> i \<and> i \<le> 2147483647)"

text \<open>A text of the database has no NUL character.\<close>

definition pg_text :: "string \<Rightarrow> bool" where
  "pg_text t = (\<not> list_ex (\<lambda>c. c = CHR 0x00) t)"

definition pg_text_optional :: "string option \<Rightarrow> bool" where
  "pg_text_optional v = (case v of None \<Rightarrow> True | Some t \<Rightarrow> pg_text t)"

text \<open>
  A number goes to a \<^verbatim>\<open>Decimal\<close> column in two steps. The client takes a finite number
  only (\<open>js_decimal\<close>). The engine rounds it to the scale of the column, half away from
  zero, and refuses it when the rounded value does not fit the precision of the column
  (\<open>pg_numeric\<close>, with the precision and the scale).
\<close>

definition js_decimal :: "js_number \<Rightarrow> decimal option" where
  "js_decimal n = (case n of Finite r \<Rightarrow> Some r | _ \<Rightarrow> None)"

definition round_scale :: "nat \<Rightarrow> decimal \<Rightarrow> decimal" where
  "round_scale k r =
     (if 0 \<le> r then of_int \<lfloor>r * 10 ^ k + 1 / 2\<rfloor> / 10 ^ k
      else - (of_int \<lfloor>- r * 10 ^ k + 1 / 2\<rfloor> / 10 ^ k))"

definition pg_numeric :: "nat \<Rightarrow> nat \<Rightarrow> decimal \<Rightarrow> decimal option" where
  "pg_numeric p k r = (if \<bar>round_scale k r\<bar> < 10 ^ (p - k) then Some (round_scale k r) else None)"

text \<open>
  The value of an optional key of an update: an absent key stays absent, and the value of a
  key that is present is converted; \<open>None\<close> when the conversion refuses it.
\<close>

definition convert_optional :: "('a \<Rightarrow> 'b option) \<Rightarrow> 'a option \<Rightarrow> 'b option option" where
  "convert_optional f v = (case v of None \<Rightarrow> Some None | Some x \<Rightarrow> map_option Some (f x))"

subsection \<open>Prisma operations\<close>

text \<open>
  The operations of the Prisma client that \<^verbatim>\<open>server.ts\<close> calls, on the constraints of
  \<^verbatim>\<open>schema.prisma\<close>: \<^verbatim>\<open>cpf_cnpj\<close> and \<^verbatim>\<open>email\<close> are \<^verbatim>\<open>@unique\<close> among customers,
  \<^verbatim>\<open>nome_ativo\<close> and \<^verbatim>\<open>codigo_ticker\<close> among assets, and the pair
  \<^verbatim>\<open>[clienteId, acaoId]\<close> among allocations; an allocation refers to a customer and to an
  asset, the latter with \<^verbatim>\<open>onDelete: Restrict\<close>. The error codes are the ones
  \<^verbatim>\<open>server.ts\<close> tests for: \<^verbatim>\<open>P2002\<close> (unique constraint), \<^verbatim>\<open>P2003\<close> (foreign key),
  \<^verbatim>\<open>P2025\<close> (record not found). A call with a value that a column cannot take throws an
  error with none of these codes. An insert takes its id from the sequence before the row is
  checked, so an insert that a constraint or the precision of a column refuses has used an
  id. An update changes the fields its \<^verbatim>\<open>data\<close> has, in the row of the given id, and
  nothing else; the row it returns is the updated one.
\<close>

definition prisma_cliente_findUnique_id :: "int \<Rightarrow> state \<Rightarrow> (thrown + cliente option) \<times> state" where
  "prisma_cliente_findUnique_id i s =
     (if int4 i then Inr (find (\<lambda>c. cliente.id c = i) (clientes s)) else Inl OtherError,
      record_call (Cliente, FindUnique) s)"

definition prisma_cliente_findUnique_cpf_cnpj ::
  "string \<Rightarrow> state \<Rightarrow> (thrown + cliente option) \<times> state" where
  "prisma_cliente_findUnique_cpf_cnpj v s =
     (if pg_text v then Inr (find (\<lambda>c. cliente.cpf_cnpj c = v) (clientes s)) else Inl OtherError,
      record_call (Cliente, FindUnique) s)"

text \<open>
  \<^verbatim>\<open>contains\<close> with \<^verbatim>\<open>mode: 'insensitive'\<close>: the value occurs in the field as a
  substring, letter case ignored (\<open>to_lower\<close> folds the ASCII capitals).
\<close>

definition to_lower :: "char \<Rightarrow> char" where
  "to_lower c =
     (case map_of (zip ''ABCDEFGHIJKLMNOPQRSTUVWXYZ'' ''abcdefghijklmnopqrstuvwxyz'') c of
        None \<Rightarrow> c
      | Some l \<Rightarrow> l)"

fun starts_with :: "string \<Rightarrow> string \<Rightarrow> bool" where
  "starts_with s [] = True"
| "starts_with [] (q # qs) = False"
| "starts_with (c # cs) (q # qs) = (c = q \<and> starts_with cs qs)"

primrec contains :: "string \<Rightarrow> string \<Rightarrow> bool" where
  "contains [] q = (q = [])"
| "contains (c # cs) q = (starts_with (c # cs) q \<or> contains cs q)"

definition contains_insensitive :: "string \<Rightarrow> string \<Rightarrow> bool" where
  "contains_insensitive field v = contains (map to_lower field) (map to_lower v)"

definition prisma_cliente_findFirst_nome_completo ::
  "string \<Rightarrow> state \<Rightarrow> (thrown + cliente option) \<times> state" where
  "prisma_cliente_findFirst_nome_completo v s =
     (if pg_text v
      then Inr (find (\<lambda>c. contains_insensitive (cliente.nome_completo c) v) (clientes s))
      else Inl OtherError,
      record_call (Cliente, FindFirst) s)"

definition prisma_cliente_create :: "create_cliente_input \<Rightarrow> state \<Rightarrow> (thrown + cliente) \<times> state" where
  "prisma_cliente_create d s =
     (let s1 = record_call (Cliente, Create) s in
      if pg_text (create_cliente_input.nome_completo d) \<and> pg_text (create_cliente_input.cpf_cnpj d) \<and>
         pg_text (create_cliente_input.telefone d) \<and> pg_text (create_cliente_input.email d)
      then
        (case db_date s (create_cliente_input.data_nascimento d) of
           None \<Rightarrow> (Inl OtherError, s1)
         | Some nascimento \<Rightarrow>
             (let s2 = s1\<lparr>seq_cliente := seq_cliente s + 1\<rparr> in
              if list_ex (\<lambda>c. cliente.cpf_cnpj c = create_cliente_input.cpf_cnpj d) (clientes s)
              then (Inl (PrismaClientKnownRequestError ''P2002'' (Some [''cpf_cnpj''])), s2)
              else if list_ex (\<lambda>c. cliente.email c = create_cliente_input.email d) (clientes s)
              then (Inl (PrismaClientKnownRequestError ''P2002'' (Some [''email''])), s2)
              else
                (let novo = \<lparr>cliente.id = seq_cliente s + 1,
                              cliente.nome_completo = create_cliente_input.nome_completo d,
                              cliente.cpf_cnpj = create_cliente_input.cpf_cnpj d,
                              cliente.telefone = create_cliente_input.telefone d,
                              cliente.data_nascimento = nascimento,
                              cliente.email = create_cliente_input.email d\<rparr>
                 in (Inr novo, s2\<lparr>clientes := clientes s @ [novo]\<rparr>))))
      else (Inl OtherError, s1))"

text \<open>The row after an update; the date is the one the column keeps.\<close>

definition patch_cliente :: "update_cliente_input \<Rightarrow> date option \<Rightarrow> cliente \<Rightarrow> cliente" where
  "patch_cliente d nascimento c =
     c\<lparr>cliente.nome_completo :=
         (case update_cliente_input.nome_completo d of None \<Rightarrow> cliente.nome_completo c | Some v \<Rightarrow> v),
       cliente.cpf_cnpj :=
         (case update_cliente_input.cpf_cnpj d of None \<Rightarrow> cliente.cpf_cnpj c | Some v \<Rightarrow> v),
       cliente.telefone :=
         (case update_cliente_input.telefone d of None \<Rightarrow> cliente.telefone c | Some v \<Rightarrow> v),
       cliente.data_nascimento :=
         (case nascimento of None \<Rightarrow> cliente.data_nascimento c | Some v \<Rightarrow> v),
       cliente.email :=
         (case update_cliente_input.email d of None \<Rightarrow> cliente.email c | Some v \<Rightarrow> v)\<rparr>"

definition prisma_cliente_update ::
  "int \<Rightarrow> update_cliente_input \<Rightarrow> state \<Rightarrow> (thrown + cliente) \<times> state" where
  "prisma_cliente_update i d s =
     (let s1 = record_call (Cliente, Update) s in
      if int4 i \<and> pg_text_optional (update_cliente_input.nome_completo d) \<and>
         pg_text_optional (update_cliente_input.cpf_cnpj d) \<and>
         pg_text_optional (update_cliente_input.telefone d) \<and>
         pg_text_optional (update_cliente_input.email d)
      then
        (case convert_optional (db_date s) (update_cliente_input.data_nascimento d) of
           None \<Rightarrow> (Inl OtherError, s1)
         | Some nascimento \<Rightarrow>
             (case find (\<lambda>c. cliente.id c = i) (clientes s) of
                None \<Rightarrow> (Inl (PrismaClientKnownRequestError ''P2025'' None), s1)
              | Some old \<Rightarrow>
                  (let new = patch_cliente d nascimento old in
                   if list_ex (\<lambda>c. cliente.id c \<noteq> i \<and> cliente.cpf_cnpj c = cliente.cpf_cnpj new)
                        (clientes s)
                   then (Inl (PrismaClientKnownRequestError ''P2002'' (Some [''cpf_cnpj''])), s1)
                   else if list_ex (\<lambda>c. cliente.id c \<noteq> i \<and> cliente.email c = cliente.email new)
                             (clientes s)
                   then (Inl (PrismaClientKnownRequestError ''P2002'' (Some [''email''])), s1)
                   else (Inr new,
                         s1\<lparr>clientes :=
                              map (\<lambda>c. if cliente.id c = i then patch_cliente d nascimento c else c)
                                (clientes s)\<rparr>))))
      else (Inl OtherError, s1))"

definition prisma_acao_findUnique_id :: "int \<Rightarrow> state \<Rightarrow> (thrown + acao option) \<times> state" where
  "prisma_acao_findUnique_id i s =
     (if int4 i then Inr (find (\<lambda>a. acao.id a = i) (acoes s)) else Inl OtherError,
      record_call (Acao, FindUnique) s)"

text \<open>The row after an update; the price is the one the column keeps.\<close>

definition patch_acao :: "update_acao_input \<Rightarrow> decimal option \<Rightarrow> acao \<Rightarrow> acao" where
  "patch_acao d valor a =
     a\<lparr>acao.nome_ativo :=
         (case update_acao_input.nome_ativo d of None \<Rightarrow> acao.nome_ativo a | Some v \<Rightarrow> v),
       acao.codigo_ticker :=
         (case update_acao_input.codigo_ticker d of None \<Rightarrow> acao.codigo_ticker a | Some v \<Rightarrow> v),
       acao.valor_atual :=
         (case valor of None \<Rightarrow> acao.valor_atual a | Some v \<Rightarrow> v),
       acao.tipo_ativo :=
         (case update_acao_input.tipo_ativo d of None \<Rightarrow> acao.tipo_ativo a | Some v \<Rightarrow> Some v),
       acao.descricao :=
         (case update_acao_input.descricao d of None \<Rightarrow> acao.descricao a | Some v \<Rightarrow> v)\<rparr>"

definition prisma_acao_update :: "int \<Rightarrow> update_acao_input \<Rightarrow> state \<Rightarrow> (thrown + acao) \<times> state" where
  "prisma_acao_update i d s =
     (let s1 = record_call (Acao, Update) s in
      if int4 i \<and> pg_text_optional (update_acao_input.nome_ativo d) \<and>
         pg_text_optional (update_acao_input.codigo_ticker d) \<and>
         pg_text_optional (update_acao_input.tipo_ativo d) \<and>
         (case update_acao_input.descricao d of None \<Rightarrow> True | Some v \<Rightarrow> pg_text_optional v)
      then
        (case convert_optional js_decimal (update_acao_input.valor_atual d) of
           None \<Rightarrow> (Inl OtherError, s1)
         | Some number \<Rightarrow>
             (case find (\<lambda>a. acao.id a = i) (acoes s) of
                None \<Rightarrow> (Inl (PrismaClientKnownRequestError ''P2025'' None), s1)
              | Some old \<Rightarrow>
                  (case convert_optional (pg_numeric 10 2) number of
                     None \<Rightarrow> (Inl OtherError, s1)
                   | Some valor \<Rightarrow>
                       (let new = patch_acao d valor old in
                        if list_ex (\<lambda>a. acao.id a \<noteq> i \<and> acao.nome_ativo a = acao.nome_ativo new)
                             (acoes s)
                        then (Inl (PrismaClientKnownRequestError ''P2002'' (Some [''nome_ativo''])), s1)
                        else if list_ex (\<lambda>a. acao.id a \<noteq> i \<and>
                                               acao.codigo_ticker a = acao.codigo_ticker new) (acoes s)
                        then (Inl (PrismaClientKnownRequestError ''P2002'' (Some [''codigo_ticker''])), s1)
                        else (Inr new,
                              s1\<lparr>acoes :=
                                   map (\<lambda>a. if acao.id a = i then patch_acao d valor a else a)
                                     (acoes s)\<rparr>)))))
      else (Inl OtherError, s1))"

definition prisma_acao_delete :: "int \<Rightarrow> state \<Rightarrow> (thrown + acao) \<times> state" where
  "prisma_acao_delete i s =
     (let s1 = record_call (Acao, Delete) s in
      if int4 i
      then
        (case find (\<lambda>a. acao.id a = i) (acoes s) of
           None \<Rightarrow> (Inl (PrismaClientKnownRequestError ''P2025'' None), s1)
         | Some old \<Rightarrow>
             if list_ex (\<lambda>al. alocacao.acaoId al = i) (alocacoes s)
             then (Inl (PrismaClientKnownRequestError ''P2003'' None), s1)
             else (Inr old, s1\<lparr>acoes := filter (\<lambda>a. acao.id a \<noteq> i) (acoes s)\<rparr>))
      else (Inl OtherError, s1))"

text \<open>The allocation calls of \<^verbatim>\<open>server.ts\<close> all ask for the asset of the row (\<^verbatim>\<open>include\<close>).\<close>

definition prisma_alocacaoCliente_create ::
  "int \<Rightarrow> create_alocacao_input \<Rightarrow> state \<Rightarrow> (thrown + alocacao \<times> acao) \<times> state" where
  "prisma_alocacaoCliente_create cid d s =
     (let s1 = record_call (AlocacaoCliente, Create) s in
      if int4 cid \<and> int4 (create_alocacao_input.acaoId d)
      then
        (case (js_decimal (create_alocacao_input.quantidade d),
               js_decimal (create_alocacao_input.valor_medio_aquisicao d),
               db_date s (create_alocacao_input.data_ultima_compra d)) of
           (Some q, Some v, Some compra) \<Rightarrow>
             (let s2 = s1\<lparr>seq_alocacao := seq_alocacao s + 1\<rparr> in
              case (pg_numeric 18 4 q, pg_numeric 12 2 v) of
                (Some quantia, Some valor) \<Rightarrow>
                  if list_ex (\<lambda>al. alocacao.clienteId al = cid \<and>
                                    alocacao.acaoId al = create_alocacao_input.acaoId d) (alocacoes s)
                  then (Inl (PrismaClientKnownRequestError ''P2002'' (Some [''clienteId'', ''acaoId''])), s2)
                  else
                    (case (find (\<lambda>c. cliente.id c = cid) (clientes s),
                           find (\<lambda>a. acao.id a = create_alocacao_input.acaoId d) (acoes s)) of
                       (Some c, Some a) \<Rightarrow>
                         (let nova = \<lparr>alocacao.id = seq_alocacao s + 1,
                                       alocacao.clienteId = cid,
                                       alocacao.acaoId = create_alocacao_input.acaoId d,
                                       alocacao.quantidade = quantia,
                                       alocacao.valor_medio_aquisicao = valor,
                                       alocacao.data_ultima_compra = compra\<rparr>
                          in (Inr (nova, a), s2\<lparr>alocacoes := alocacoes s @ [nova]\<rparr>))
                     | _ \<Rightarrow> (Inl (PrismaClientKnownRequestError ''P2003'' None), s2))
              | _ \<Rightarrow> (Inl OtherError, s2))
         | _ \<Rightarrow> (Inl OtherError, s1))
      else (Inl OtherError, s1))"

definition select_acao :: "acao \<Rightarrow> acao_select" where
  "select_acao a =
     \<lparr>acao_select.id = acao.id a,
      acao_select.nome_ativo = acao.nome_ativo a,
      acao_select.codigo_ticker = acao.codigo_ticker a,
      acao_select.valor_atual = acao.valor_atual a\<rparr>"

definition prisma_alocacaoCliente_findMany_clienteId ::
  "int \<Rightarrow> state \<Rightarrow> (thrown + (alocacao \<times> acao_select option) list) \<times> state" where
  "prisma_alocacaoCliente_findMany_clienteId cid s =
     (if int4 cid
      then Inr (map (\<lambda>al. (al, map_option select_acao
                                 (find (\<lambda>a. acao.id a = alocacao.acaoId al) (acoes s))))
                  (filter (\<lambda>al. alocacao.clienteId al = cid) (alocacoes s)))
      else Inl OtherError,
      record_call (AlocacaoCliente, FindMany) s)"

text \<open>The row after an update, with the values the columns keep.\<close>

definition patch_alocacao ::
  "decimal option \<Rightarrow> decimal option \<Rightarrow> date option \<Rightarrow> alocacao \<Rightarrow> alocacao" where
  "patch_alocacao quantia valor compra al =
     al\<lparr>alocacao.quantidade :=
          (case quantia of None \<Rightarrow> alocacao.quantidade al | Some v \<Rightarrow> v),
        alocacao.valor_medio_aquisicao :=
          (case valor of None \<Rightarrow> alocacao.valor_medio_aquisicao al | Some v \<Rightarrow> v),
        alocacao.data_ultima_compra :=
          (case compra of None \<Rightarrow> alocacao.data_ultima_compra al | Some v \<Rightarrow> v)\<rparr>"

definition prisma_alocacaoCliente_update ::
  "int \<Rightarrow> update_alocacao_input \<Rightarrow> state \<Rightarrow> (thrown + alocacao \<times> acao option) \<times> state" where
  "prisma_alocacaoCliente_update i d s =
     (let s1 = record_call (AlocacaoCliente, Update) s in
      if int4 i
      then
        (case (convert_optional js_decimal (update_alocacao_input.quantidade d),
               convert_optional js_decimal (update_alocacao_input.valor_medio_aquisicao d),
               convert_optional (db_date s) (update_alocacao_input.data_ultima_compra d)) of
           (Some q, Some v, Some compra) \<Rightarrow>
             (case find (\<lambda>al. alocacao.id al = i) (alocacoes s) of
                None \<Rightarrow> (Inl (PrismaClientKnownRequestError ''P2025'' None), s1)
              | Some old \<Rightarrow>
                  (case (convert_optional (pg_numeric 18 4) q, convert_optional (pg_numeric 12 2) v) of
                     (Some quantia, Some valor) \<Rightarrow>
                       (let new = patch_alocacao quantia valor compra old in
                        (Inr (new, find (\<lambda>a. acao.id a = alocacao.acaoId new) (acoes s)),
                         s1\<lparr>alocacoes :=
                              map (\<lambda>al. if alocacao.id al = i
                                         then patch_alocacao quantia valor compra al else al)
                                (alocacoes s)\<rparr>))
                   | _ \<Rightarrow> (Inl OtherError, s1)))
         | _ \<Rightarrow> (Inl OtherError, s1))
      else (Inl OtherError, s1))"

section \<open>Route handlers of \<^verbatim>\<open>server.ts\<close>\<close>

text \<open>
  A handler takes the validated input and the database and returns the response with the
  database after its calls. Each handler has its calls in a \<^verbatim>\<open>try\<close> block: what a call
  throws goes to the \<^verbatim>\<open>catch\<close>, which answers by the code of the error and with 500 for
  the rest. \<^verbatim>\<open>reply.send\<close> without \<^verbatim>\<open>reply.status\<close> answers 200. A body
  \<^verbatim>\<open>{ message }\<close> or \<^verbatim>\<open>{ message, fields }\<close> is a \<open>MessageBody\<close> with the message and,
  when the object has one, the value of \<^verbatim>\<open>fields\<close>.

  \<^verbatim>\<open>server.ts\<close> comes in two versions. The first has the customer routes only; the
  second has the full route set (customers, assets, allocations). A handler of the first
  version carries the suffix \<open>_first\<close>; the others are the handlers of the full route set.
\<close>

datatype body =
    MessageBody string "string option"
  | ValidationBody "string list"
  | ClienteBody cliente
  | AcaoBody acao
  | AlocacaoBody alocacao "acao option"
  | AlocacoesBody "(alocacao \<times> acao_select option) list"

record response =
  status :: nat
  body :: body

definition reply :: "nat \<Rightarrow> body \<Rightarrow> response" where
  "reply code b = \<lparr>status = code, body = b\<rparr>"

text \<open>
  \<^verbatim>\<open>(error.meta?.target as string[])?.join(', ')\<close> and its use in a template literal,
  where \<^verbatim>\<open>undefined\<close> prints as its name.
\<close>

fun join :: "string \<Rightarrow> string list \<Rightarrow> string" where
  "join sep [] = []"
| "join sep [x] = x"
| "join sep (x # y # ys) = x @ sep @ join sep (y # ys)"

definition join_target :: "string list option \<Rightarrow> string option" where
  "join_target t = map_option (join '', '') t"

definition template :: "string option \<Rightarrow> string" where
  "template t = (case t of None \<Rightarrow> ''undefined'' | Some v \<Rightarrow> v)"

subsection \<open>Customers\<close>

text \<open>\<^verbatim>\<open>POST /clientes\<close>, first version: the conflict body has \<^verbatim>\<open>fields\<close>.\<close>

definition post_clientes_first :: "create_cliente_input \<Rightarrow> state \<Rightarrow> response \<times> state" where
  "post_clientes_first b s =
     (case prisma_cliente_create b s of
        (Inr novoCliente, s1) \<Rightarrow> (reply 201 (ClienteBody novoCliente), s1)
      | (Inl error, s1) \<Rightarrow>
          if has_code ''P2002'' error
          then (reply 409
                  (MessageBody (''Erro de conflito: Ja existe um cliente com este '' @
                                  template (join_target (meta_target error)) @ ''.'')
                     (join_target (meta_target error))), s1)
          else (reply 500 (MessageBody ''Erro interno ao criar cliente.'' None), s1))"

text \<open>\<^verbatim>\<open>POST /clientes\<close>, full route set.\<close>

definition post_clientes :: "create_cliente_input \<Rightarrow> state \<Rightarrow> response \<times> state" where
  "post_clientes b s =
     (case prisma_cliente_create b s of
        (Inr novoCliente, s1) \<Rightarrow> (reply 201 (ClienteBody novoCliente), s1)
      | (Inl error, s1) \<Rightarrow>
          if has_code ''P2002'' error
          then (reply 409
                  (MessageBody (''Conflito: Ja existe um cliente com este '' @
                                  template (join_target (meta_target error)) @ ''.'') None), s1)
          else (reply 500 (MessageBody ''Erro interno ao criar cliente.'' None), s1))"

text \<open>
  \<^verbatim>\<open>GET /clientes/buscar\<close>: \<^verbatim>\<open>if (cpf_cnpj) ... else if (nome_completo) ...\<close> inside the
  \<^verbatim>\<open>try\<close>; a string is truthy when it is not empty. With neither, \<^verbatim>\<open>cliente\<close> stays
  \<^verbatim>\<open>null\<close> and no call is made.
\<close>

definition buscar_por_nome :: "buscar_query \<Rightarrow> state \<Rightarrow> (thrown + cliente option) \<times> state" where
  "buscar_por_nome q s =
     (case buscar_query.nome_completo q of
        None \<Rightarrow> (Inr None, s)
      | Some n \<Rightarrow> if n \<noteq> [] then prisma_cliente_findFirst_nome_completo n s else (Inr None, s))"

definition get_clientes_buscar :: "buscar_query \<Rightarrow> state \<Rightarrow> response \<times> state" where
  "get_clientes_buscar q s =
     (case (case buscar_query.cpf_cnpj q of
              None \<Rightarrow> buscar_por_nome q s
            | Some c \<Rightarrow> if c \<noteq> [] then prisma_cliente_findUnique_cpf_cnpj c s else buscar_por_nome q s) of
        (Inr None, s1) \<Rightarrow> (reply 404 (MessageBody ''Cliente nao encontrado.'' None), s1)
      | (Inr (Some cliente), s1) \<Rightarrow> (reply 200 (ClienteBody cliente), s1)
      | (Inl error, s1) \<Rightarrow> (reply 500 (MessageBody ''Erro interno ao buscar cliente.'' None), s1))"

text \<open>
  The route as Fastify runs it: the query string goes through the schema first, and a
  request that the schema rejects is answered 400 without the handler being called.
\<close>

definition route_get_clientes_buscar :: "jobject \<Rightarrow> state \<Rightarrow> response \<times> state" where
  "route_get_clientes_buscar query s =
     (case buscarClienteQuerySchema query of
        Inl msgs \<Rightarrow> (reply 400 (ValidationBody msgs), s)
      | Inr q \<Rightarrow> get_clientes_buscar q s)"

text \<open>\<^verbatim>\<open>Object.keys\<close> of a validated update body: the keys that are present.\<close>

definition object_keys_update_cliente :: "update_cliente_input \<Rightarrow> string list" where
  "object_keys_update_cliente d =
     (if update_cliente_input.nome_completo d = None then [] else [''nome_completo'']) @
     (if update_cliente_input.cpf_cnpj d = None then [] else [''cpf_cnpj'']) @
     (if update_cliente_input.telefone d = None then [] else [''telefone'']) @
     (if update_cliente_input.data_nascimento d = None then [] else [''data_nascimento'']) @
     (if update_cliente_input.email d = None then [] else [''email''])"

text \<open>\<^verbatim>\<open>PUT /clientes/:id\<close>, first version: the guard on an empty body, \<^verbatim>\<open>fields\<close> on a conflict.\<close>

definition put_clientes_first :: "int \<Rightarrow> update_cliente_input \<Rightarrow> state \<Rightarrow> response \<times> state" where
  "put_clientes_first i dadosAtualizacao s =
     (if length (object_keys_update_cliente dadosAtualizacao) = 0
      then (reply 400 (MessageBody ''Nenhum dado fornecido para atualizacao.'' None), s)
      else
        (case prisma_cliente_update i dadosAtualizacao s of
           (Inr clienteAtualizado, s1) \<Rightarrow> (reply 200 (ClienteBody clienteAtualizado), s1)
         | (Inl error, s1) \<Rightarrow>
             if has_code ''P2025'' error
             then (reply 404 (MessageBody ''Cliente nao encontrado para atualizacao.'' None), s1)
             else if has_code ''P2002'' error
             then (reply 409
                     (MessageBody (''Erro de conflito: Ja existe um cliente com este '' @
                                     template (join_target (meta_target error)) @ ''.'')
                        (join_target (meta_target error))), s1)
             else (reply 500 (MessageBody ''Erro interno ao atualizar cliente.'' None), s1)))"

text \<open>\<^verbatim>\<open>PUT /clientes/:id\<close>, full route set.\<close>

definition put_clientes :: "int \<Rightarrow> update_cliente_input \<Rightarrow> state \<Rightarrow> response \<times> state" where
  "put_clientes i b s =
     (case prisma_cliente_update i b s of
        (Inr clienteAtualizado, s1) \<Rightarrow> (reply 200 (ClienteBody clienteAtualizado), s1)
      | (Inl error, s1) \<Rightarrow>
          if has_code ''P2025'' error
          then (reply 404 (MessageBody ''Cliente nao encontrado para atualizacao.'' None), s1)
          else if has_code ''P2002'' error
          then (reply 409
                  (MessageBody (''Conflito: Ja existe um cliente com este '' @
                                  template (join_target (meta_target error)) @ ''.'') None), s1)
          else (reply 500 (MessageBody ''Erro interno ao atualizar cliente.'' None), s1))"

subsection \<open>Assets\<close>

text \<open>\<^verbatim>\<open>PUT /acoes/:id\<close>.\<close>

definition put_acoes :: "int \<Rightarrow> update_acao_input \<Rightarrow> state \<Rightarrow> response \<times> state" where
  "put_acoes i b s =
     (case prisma_acao_update i b s of
        (Inr acaoAtualizada, s1) \<Rightarrow> (reply 200 (AcaoBody acaoAtualizada), s1)
      | (Inl error, s1) \<Rightarrow>
          if has_code ''P2025'' error
          then (reply 404 (MessageBody ''Acao nao encontrada para atualizacao.'' None), s1)
          else if has_code ''P2002'' error
          then (reply 409
                  (MessageBody (''Conflito: Ja existe uma acao com este '' @
                                  template (join_target (meta_target error)) @ ''.'') None), s1)
          else (reply 500 (MessageBody ''Erro interno ao atualizar acao.'' None), s1))"

text \<open>\<^verbatim>\<open>DELETE /acoes/:id\<close>.\<close>

definition delete_acoes :: "int \<Rightarrow> state \<Rightarrow> response \<times> state" where
  "delete_acoes i s =
     (case prisma_acao_delete i s of
        (Inr _, s1) \<Rightarrow> (reply 200 (MessageBody ''Acao deletada com sucesso.'' None), s1)
      | (Inl error, s1) \<Rightarrow>
          if has_code ''P2025'' error
          then (reply 404 (MessageBody ''Acao nao encontrada para delecao.'' None), s1)
          else if has_code ''P2003'' error
          then (reply 409
                  (MessageBody ''Nao e possivel deletar a acao pois ela esta alocada a um ou mais clientes.''
                     None), s1)
          else (reply 500 (MessageBody ''Erro interno ao deletar acao.'' None), s1))"

subsection \<open>Allocations\<close>

text \<open>
  \<^verbatim>\<open>POST /clientes/:id/alocacoes\<close>. The two lookups and the insert are in one \<^verbatim>\<open>try\<close>
  block, with the one \<^verbatim>\<open>catch\<close>.
\<close>

definition post_clientes_alocacoes_catch :: "thrown \<Rightarrow> response" where
  "post_clientes_alocacoes_catch error =
     (if has_code ''P2002'' error
      then reply 409 (MessageBody ''Este cliente ja possui uma alocacao para esta acao.'' None)
      else reply 500 (MessageBody ''Erro interno ao criar alocacao.'' None))"

definition post_clientes_alocacoes :: "int \<Rightarrow> create_alocacao_input \<Rightarrow> state \<Rightarrow> response \<times> state" where
  "post_clientes_alocacoes cid b s =
     (case prisma_cliente_findUnique_id cid s of
        (Inl error, s1) \<Rightarrow> (post_clientes_alocacoes_catch error, s1)
      | (Inr None, s1) \<Rightarrow> (reply 404 (MessageBody ''Cliente nao encontrado.'' None), s1)
      | (Inr (Some clienteExists), s1) \<Rightarrow>
          (case prisma_acao_findUnique_id (create_alocacao_input.acaoId b) s1 of
             (Inl error, s2) \<Rightarrow> (post_clientes_alocacoes_catch error, s2)
           | (Inr None, s2) \<Rightarrow> (reply 404 (MessageBody ''Acao nao encontrada.'' None), s2)
           | (Inr (Some acaoExists), s2) \<Rightarrow>
               (case prisma_alocacaoCliente_create cid b s2 of
                  (Inr (novaAlocacao, a), s3) \<Rightarrow> (reply 201 (AlocacaoBody novaAlocacao (Some a)), s3)
                | (Inl error, s3) \<Rightarrow> (post_clientes_alocacoes_catch error, s3))))"

text \<open>
  \<^verbatim>\<open>GET /clientes/:id/alocacoes\<close>: the branch on an empty result has an empty block, and
  the \<^verbatim>\<open>catch\<close> answers 500.
\<close>

definition get_clientes_alocacoes :: "int \<Rightarrow> state \<Rightarrow> response \<times> state" where
  "get_clientes_alocacoes cid s =
     (case prisma_alocacaoCliente_findMany_clienteId cid s of
        (Inr alocs, s1) \<Rightarrow> (reply 200 (AlocacoesBody alocs), s1)
      | (Inl error, s1) \<Rightarrow>
          (reply 500 (MessageBody ''Erro interno ao buscar alocacoes do cliente.'' None), s1))"

text \<open>\<^verbatim>\<open>PUT /alocacoes/:id\<close>, and the route with its body schema in front.\<close>

definition put_alocacoes :: "int \<Rightarrow> update_alocacao_input \<Rightarrow> state \<Rightarrow> response \<times> state" where
  "put_alocacoes i b s =
     (case prisma_alocacaoCliente_update i b s of
        (Inr (alocacaoAtualizada, a), s1) \<Rightarrow> (reply 200 (AlocacaoBody alocacaoAtualizada a), s1)
      | (Inl error, s1) \<Rightarrow>
          if has_code ''P2025'' error
          then (reply 404 (MessageBody ''Alocacao nao encontrada para atualizacao.'' None), s1)
          else (reply 500 (MessageBody ''Erro interno ao atualizar alocacao.'' None), s1))"

definition route_put_alocacoes ::
  "(json \<Rightarrow> js_number) \<Rightarrow> (json \<Rightarrow> date option) \<Rightarrow> int \<Rightarrow> jobject \<Rightarrow> state \<Rightarrow> response \<times> state" where
  "route_put_alocacoes toNumber toDate i raw s =
     (case updateAlocacaoSchema toNumber toDate raw of
        Inl msgs \<Rightarrow> (reply 400 (ValidationBody msgs), s)
      | Inr b \<Rightarrow> put_alocacoes i b s)"

section \<open>Vocabulary of the statements\<close>

text \<open>
  Referential integrity of a database: every allocation refers to a customer and to an
  asset that exist.
\<close>

definition referential_integrity :: "state \<Rightarrow> bool" where
  "referential_integrity s =
     list_all (\<lambda>al. list_ex (\<lambda>c. cliente.id c = alocacao.clienteId al) (clientes s) \<and>
                     list_ex (\<lambda>a. acao.id a = alocacao.acaoId al) (acoes s)) (alocacoes s)"

text \<open>
  A field of a query string that is absent or a string, and one that is a string with at
  least one character.
\<close>

definition string_or_absent :: "json option \<Rightarrow> bool" where
  "string_or_absent v = (case v of None \<Rightarrow> True | Some (JStr s) \<Rightarrow> True | Some _ \<Rightarrow> False)"

definition nonempty_string :: "json option \<Rightarrow> bool" where
  "nonempty_string v = (case v of Some (JStr s) \<Rightarrow> s \<noteq> [] | _ \<Rightarrow> False)"

text \<open>The \<^verbatim>\<open>fields\<close> key of a response body, when it has one.\<close>

definition fields_of :: "body \<Rightarrow> string option" where
  "fields_of b = (case b of MessageBody m f \<Rightarrow> f | _ \<Rightarrow> None)"

text \<open>
  A small database for the concrete cases, after the scenario of the spec: the customer
  with tax identifier 12345678901, the asset PETR4 priced 30.00, and the customer's
  allocation of 100 units of it at 28.00. Its date columns take the time stamps of the
  years 1 to 9999 and keep the day of each (\<open>dia_utc\<close>).
\<close>

abbreviation dia_utc :: "date \<Rightarrow> date option" where
  "dia_utc \<equiv> (\<lambda>t. if - 62135596800000 \<le> t \<and> t \<le> 253402300799999
                  then Some (t div 86400000 * 86400000) else None)"

abbreviation ana :: cliente where
  "ana \<equiv> \<lparr>cliente.id = 1, cliente.nome_completo = ''Ana Souza'', cliente.cpf_cnpj = ''12345678901'',
           cliente.telefone = ''11999990000'', cliente.data_nascimento = 0,
           cliente.email = ''ana@example.com''\<rparr>"

abbreviation petr4 :: acao where
  "petr4 \<equiv> \<lparr>acao.id = 1, acao.nome_ativo = ''Petrobras PN'', acao.codigo_ticker = ''PETR4'',
             acao.valor_atual = 30, acao.tipo_ativo = None, acao.descricao = None\<rparr>"

abbreviation ana_petr4 :: alocacao where
  "ana_petr4 \<equiv> \<lparr>alocacao.id = 1, alocacao.clienteId = 1, alocacao.acaoId = 1,
                 alocacao.quantidade = 100, alocacao.valor_medio_aquisicao = 28,
                 alocacao.data_ultima_compra = 0\<rparr>"

abbreviation carteira :: state where
  "carteira \<equiv> \<lparr>clientes = [ana], acoes = [petr4], alocacoes = [ana_petr4],
                seq_cliente = 1, seq_alocacao = 1, db_date = dia_utc, log = []\<rparr>"

abbreviation sem_alocacoes :: state where
  "sem_alocacoes \<equiv> \<lparr>clientes = [ana], acoes = [petr4], alocacoes = [],
                     seq_cliente = 1, seq_alocacao = 0, db_date = dia_utc, log = []\<rparr>"

abbreviation corpo_vazio_cliente :: update_cliente_input where
  "corpo_vazio_cliente \<equiv>
     \<lparr>update_cliente_input.nome_completo = None, update_cliente_input.cpf_cnpj = None,
      update_cliente_input.telefone = None, update_cliente_input.data_nascimento = None,
      update_cliente_input.email = None\<rparr>"

abbreviation corpo_vazio_acao :: update_acao_input where
  "corpo_vazio_acao \<equiv>
     \<lparr>update_acao_input.nome_ativo = None, update_acao_input.codigo_ticker = None,
      update_acao_input.valor_atual = None, update_acao_input.tipo_ativo = None,
      update_acao_input.descricao = None\<rparr>"

abbreviation corpo_vazio_alocacao :: update_alocacao_input where
  "corpo_vazio_alocacao \<equiv>
     \<lparr>update_alocacao_input.quantidade = None, update_alocacao_input.valor_medio_aquisicao = None,
      update_alocacao_input.data_ultima_compra = None\<rparr>"

abbreviation bia :: create_cliente_input where
  "bia \<equiv>
     \<lparr>create_cliente_input.nome_completo = ''Bia Lima'', create_cliente_input.cpf_cnpj = ''12345678901'',
      create_cliente_input.telefone = ''11888880000'', create_cliente_input.data_nascimento = 0,
      create_cliente_input.email = ''bia@example.com''\<rparr>"

text \<open>\<^verbatim>\<open>Number\<close> and \<^verbatim>\<open>new Date\<close> on the JSON numbers, enough for the concrete cases.\<close>

abbreviation numero_json :: "json \<Rightarrow> js_number" where
  "numero_json \<equiv> (\<lambda>v. case v of JNum n \<Rightarrow> Finite n | _ \<Rightarrow> NaN)"

abbreviation data_json :: "json \<Rightarrow> date option" where
  "data_json \<equiv> (\<lambda>v. case v of JNum n \<Rightarrow> Some \<lfloor>n\<rfloor> | _ \<Rightarrow> None)"

section \<open>Auxiliary facts\<close>

lemma record_call_simps [simp]:
  "clientes (record_call c s) = clientes s"
  "acoes (record_call c s) = acoes s"
  "alocacoes (record_call c s) = alocacoes s"
  "seq_cliente (record_call c s) = seq_cliente s"
  "seq_alocacao (record_call c s) = seq_alocacao s"
  "db_date (record_call c s) = db_date s"
  "log (record_call c s) = log s @ [c]"
  by (simp_all add: record_call_def)

lemmas prisma_defs =
  prisma_cliente_findUnique_id_def prisma_cliente_findUnique_cpf_cnpj_def
  prisma_cliente_findFirst_nome_completo_def prisma_cliente_create_def prisma_cliente_update_def
  prisma_acao_findUnique_id_def prisma_acao_update_def prisma_acao_delete_def
  prisma_alocacaoCliente_create_def prisma_alocacaoCliente_findMany_clienteId_def
  prisma_alocacaoCliente_update_def record_call_def Let_def

lemmas catch_defs = has_code_def meta_target_def post_clientes_alocacoes_catch_def

lemma find_None_list_ex: "find P xs = None \<longleftrightarrow> \<not> list_ex P xs"
  by (auto simp: find_None_iff list_ex_iff)

lemma find_Some_list_ex: "find P xs = Some x \<Longrightarrow> list_ex P xs"
  by (auto simp: find_Some_iff list_ex_iff)

lemma list_ex_find_Some: "list_ex P xs \<Longrightarrow> \<exists>x. find P xs = Some x \<and> P x"
  by (induction xs) auto

lemma filter_no_match: "\<not> list_ex P xs \<Longrightarrow> filter P xs = []"
  by (induction xs) auto

subsection \<open>Values of the columns\<close>

lemma round_scale_of_int: "round_scale k (of_int n) = of_int n"
proof -
  have pos: "\<lfloor>(of_int m :: rat) * 10 ^ k + 1 / 2\<rfloor> = m * 10 ^ k" for m :: int
    by (rule floor_unique) simp_all
  have nz: "(10 :: rat) ^ k \<noteq> 0"
    by simp
  show ?thesis
  proof (cases "0 \<le> n")
    case True
    with pos [of n] nz show ?thesis
      by (simp add: round_scale_def)
  next
    case False
    have "\<lfloor>- (of_int n :: rat) * 10 ^ k + 1 / 2\<rfloor> = - n * 10 ^ k"
      using pos [of "- n"] by simp
    with False nz show ?thesis
      by (simp add: round_scale_def)
  qed
qed

lemma round_scale_numeral [simp]: "round_scale k (numeral w) = numeral w"
  using round_scale_of_int [of k "numeral w"] by simp

lemma pg_numeric_numeral [simp]:
  "pg_numeric p k (numeral w) = (if (numeral w :: rat) < 10 ^ (p - k) then Some (numeral w) else None)"
  by (simp add: pg_numeric_def)

lemma floor_rat_numeral_divide [simp]:
  "\<lfloor>(numeral a :: rat) / numeral b\<rfloor> = numeral a div numeral b"
  using floor_divide_of_int_eq [of "numeral a" "numeral b", where ?'a = rat] by simp

subsection \<open>The pattern of \<^verbatim>\<open>cpf_cnpj\<close>\<close>

lemma rx_times_digits:
  "rx_times n (rx_match (Cls is_digit)) s =
     (if n \<le> length s \<and> list_all is_digit (take n s) then [drop n s] else [])"
proof (induction n arbitrary: s)
  case 0
  show ?case by simp
next
  case (Suc n)
  show ?case
  proof (cases s)
    case Nil
    then show ?thesis by simp
  next
    case (Cons c cs)
    show ?thesis
    proof (cases "is_digit c")
      case True
      with Cons Suc.IH [of cs] show ?thesis by simp
    next
      case False
      with Cons show ?thesis by simp
    qed
  qed
qed

lemma rx_match_Rep_digits:
  "rx_match (Rep (Cls is_digit) n) s =
     (if n \<le> length s \<and> list_all is_digit (take n s) then [drop n s] else [])"
  by (simp only: rx_match.simps(4) rx_times_digits)

lemma rx_match_cpf_cnpj:
  "rx_match cpf_cnpj_regex s =
     (if 11 \<le> length s \<and> list_all is_digit (take 11 s) then [drop 11 s] else []) @
     (if 14 \<le> length s \<and> list_all is_digit (take 14 s) then [drop 14 s] else [])"
  by (simp only: cpf_cnpj_regex_def rx_match.simps(2) rx_match_Rep_digits)

lemma rx_test_cpf_cnpj:
  "rx_test_anchored cpf_cnpj_regex s \<longleftrightarrow>
     list_all is_digit s \<and> (length s = 11 \<or> length s = 14)"
  by (auto simp: rx_test_anchored_def rx_match_cpf_cnpj)

subsection \<open>The search query schema\<close>

lemma z_string_optional_cases:
  "z_string_optional v =
     (if string_or_absent v
      then Inr (case v of None \<Rightarrow> None | Some (JStr s) \<Rightarrow> Some s | Some _ \<Rightarrow> None)
      else Inl [''Expected string''])"
  by (simp add: z_string_optional_def string_or_absent_def split: option.splits json.splits)

lemma truthy_parsed:
  "string_or_absent v \<Longrightarrow>
     truthy (case v of None \<Rightarrow> None | Some (JStr s) \<Rightarrow> Some s | Some _ \<Rightarrow> None) = nonempty_string v"
  by (simp add: truthy_def nonempty_string_def string_or_absent_def split: option.splits json.splits)

lemma nonempty_string_or_absent: "nonempty_string v \<Longrightarrow> string_or_absent v"
  by (simp add: nonempty_string_def string_or_absent_def split: option.splits json.splits)

lemma buscar_accepts_iff:
  "\<not> isl (buscarClienteQuerySchema q) \<longleftrightarrow>
     string_or_absent (q ''nome_completo'') \<and> string_or_absent (q ''cpf_cnpj'') \<and>
     nonempty_string (q ''nome_completo'') \<noteq> nonempty_string (q ''cpf_cnpj'')"
  by (auto simp: buscarClienteQuerySchema_def z_string_optional_cases truthy_parsed
      buscar_refinements_def Let_def)

lemma buscar_issues_nonempty:
  "isl (buscarClienteQuerySchema q) \<Longrightarrow> issues (buscarClienteQuerySchema q) \<noteq> []"
  by (auto simp: buscarClienteQuerySchema_def z_string_optional_cases issues_def
      buscar_refinements_def Let_def split: if_splits)

lemma route_buscar_rejected:
  "isl (buscarClienteQuerySchema q) \<Longrightarrow>
     route_get_clientes_buscar q s =
       (reply 400 (ValidationBody (issues (buscarClienteQuerySchema q))), s)"
  by (cases "buscarClienteQuerySchema q") (simp_all add: route_get_clientes_buscar_def issues_def)

lemma buscar_neither:
  "string_or_absent (q ''nome_completo'') \<Longrightarrow> string_or_absent (q ''cpf_cnpj'') \<Longrightarrow>
   \<not> nonempty_string (q ''nome_completo'') \<Longrightarrow> \<not> nonempty_string (q ''cpf_cnpj'') \<Longrightarrow>
     buscarClienteQuerySchema q = Inl [''Forneca 'nome_completo' ou 'cpf_cnpj' para a busca.'']"
  by (simp add: buscarClienteQuerySchema_def z_string_optional_cases truthy_parsed
      buscar_refinements_def Let_def)

lemma buscar_both:
  "nonempty_string (q ''nome_completo'') \<Longrightarrow> nonempty_string (q ''cpf_cnpj'') \<Longrightarrow>
     buscarClienteQuerySchema q =
       Inl [''Forneca apenas 'nome_completo' OU 'cpf_cnpj' para a busca, nao ambos simultaneamente.'']"
  by (simp add: buscarClienteQuerySchema_def z_string_optional_cases truthy_parsed
      nonempty_string_or_absent buscar_refinements_def Let_def)

subsection \<open>Updates of an allocation\<close>

lemma links_patch_alocacao:
  "alocacao.id (patch_alocacao q v c al) = alocacao.id al"
  "alocacao.clienteId (patch_alocacao q v c al) = alocacao.clienteId al"
  "alocacao.acaoId (patch_alocacao q v c al) = alocacao.acaoId al"
  by (simp_all add: patch_alocacao_def)

lemma map_patch_links:
  "map (\<lambda>al. (alocacao.id al, alocacao.clienteId al, alocacao.acaoId al))
     (map (\<lambda>al. if alocacao.id al = i then patch_alocacao q v c al else al) xs) =
   map (\<lambda>al. (alocacao.id al, alocacao.clienteId al, alocacao.acaoId al)) xs"
  by (induction xs) (simp_all add: links_patch_alocacao)

lemma filter_patch_others:
  "filter (\<lambda>al. alocacao.id al \<noteq> i)
     (map (\<lambda>al. if alocacao.id al = i then patch_alocacao q v c al else al) xs) =
   filter (\<lambda>al. alocacao.id al \<noteq> i) xs"
  by (induction xs) (simp_all add: links_patch_alocacao)

lemma put_alocacoes_tables:
  "clientes (snd (put_alocacoes i b s)) = clientes s"
  "acoes (snd (put_alocacoes i b s)) = acoes s"
  "alocacoes (snd (put_alocacoes i b s)) = alocacoes s \<or>
   (\<exists>q v c. alocacoes (snd (put_alocacoes i b s)) =
      map (\<lambda>al. if alocacao.id al = i then patch_alocacao q v c al else al) (alocacoes s))"
  by (auto simp: put_alocacoes_def prisma_alocacaoCliente_update_def Let_def
      split: option.splits prod.splits)

lemma updateAlocacaoSchema_strips:
  "updateAlocacaoSchema toNumber toDate (raw(''acaoId'' := x, ''clienteId'' := y)) =
   updateAlocacaoSchema toNumber toDate raw"
  by (simp add: updateAlocacaoSchema_def)

subsection \<open>Referential integrity\<close>

lemma integrity_no_alocacao:
  assumes "referential_integrity s" and "\<not> list_ex (\<lambda>c. cliente.id c = cid) (clientes s)"
  shows "\<not> list_ex (\<lambda>al. alocacao.clienteId al = cid) (alocacoes s)"
  using assms by (auto simp: referential_integrity_def list_all_iff list_ex_iff)

lemma integrity_joined:
  assumes "referential_integrity s"
  shows "list_all (\<lambda>(al, a). map_option acao_select.id a = Some (alocacao.acaoId al))
           (map (\<lambda>al. (al, map_option
                             (\<lambda>a. \<lparr>acao_select.id = acao.id a,
                                   acao_select.nome_ativo = acao.nome_ativo a,
                                   acao_select.codigo_ticker = acao.codigo_ticker a,
                                   acao_select.valor_atual = acao.valor_atual a\<rparr>)
                             (find (\<lambda>a. acao.id a = alocacao.acaoId al) (acoes s))))
              (filter (\<lambda>al. alocacao.clienteId al = cid) (alocacoes s)))"
proof -
  have "map_option acao_select.id
          (map_option
             (\<lambda>a. \<lparr>acao_select.id = acao.id a,
                   acao_select.nome_ativo = acao.nome_ativo a,
                   acao_select.codigo_ticker = acao.codigo_ticker a,
                   acao_select.valor_atual = acao.valor_atual a\<rparr>)
             (find (\<lambda>a. acao.id a = alocacao.acaoId al) (acoes s))) =
        Some (alocacao.acaoId al)"
    if "al \<in> set (alocacoes s)" for al
  proof -
    from assms that have "list_ex (\<lambda>a. acao.id a = alocacao.acaoId al) (acoes s)"
      by (auto simp: referential_integrity_def list_all_iff)
    then obtain a where "find (\<lambda>a. acao.id a = alocacao.acaoId al) (acoes s) = Some a"
      and "acao.id a = alocacao.acaoId al"
      using list_ex_find_Some by blast
    then show ?thesis by simp
  qed
  then show ?thesis by (simp add: list_all_iff)
qed

text \<open>
  The handlers keep referential integrity: what holds of the database before a request holds
  of it after.
\<close>

lemma patch_ids [simp]:
  "cliente.id (patch_cliente d n c) = cliente.id c"
  "acao.id (patch_acao da v a) = acao.id a"
  by (simp_all add: patch_cliente_def patch_acao_def)

lemma list_ex_patch_cliente:
  "list_ex (\<lambda>c. cliente.id c = x)
     (map (\<lambda>c. if cliente.id c = i then patch_cliente d n c else c) xs) =
   list_ex (\<lambda>c. cliente.id c = x) xs"
  by (induction xs) simp_all

lemma list_ex_patch_acao:
  "list_ex (\<lambda>a. acao.id a = x) (map (\<lambda>a. if acao.id a = i then patch_acao d v a else a) xs) =
   list_ex (\<lambda>a. acao.id a = x) xs"
  by (induction xs) simp_all

lemma list_ex_filter_other:
  "x \<noteq> i \<Longrightarrow> list_ex (\<lambda>a. acao.id a = x) (filter (\<lambda>a. acao.id a \<noteq> i) xs) =
   list_ex (\<lambda>a. acao.id a = x) xs"
  by (induction xs) auto

lemma list_all_patch_alocacao:
  "list_all (\<lambda>al. P (alocacao.clienteId al) \<and> Q (alocacao.acaoId al))
     (map (\<lambda>al. if alocacao.id al = i then patch_alocacao q v c al else al) xs) =
   list_all (\<lambda>al. P (alocacao.clienteId al) \<and> Q (alocacao.acaoId al)) xs"
  by (induction xs) (simp_all add: links_patch_alocacao)

lemma integrity_post_clientes_alocacoes:
  "referential_integrity s \<Longrightarrow> referential_integrity (snd (post_clientes_alocacoes cid b s))"
  by (auto simp: referential_integrity_def post_clientes_alocacoes_def prisma_defs
      split: option.splits dest: find_Some_list_ex)

lemma integrity_delete_acoes:
  assumes "referential_integrity s"
  shows "referential_integrity (snd (delete_acoes i s))"
proof (cases "int4 i")
  case False
  with assms show ?thesis
    by (simp add: referential_integrity_def delete_acoes_def prisma_defs)
next
  case True
  show ?thesis
  proof (cases "find (\<lambda>a. acao.id a = i) (acoes s)")
    case None
    with assms True show ?thesis
      by (simp add: referential_integrity_def delete_acoes_def prisma_defs)
  next
    case (Some a)
    show ?thesis
    proof (cases "list_ex (\<lambda>al. alocacao.acaoId al = i) (alocacoes s)")
      case referenced: True
      with assms Some True show ?thesis
        by (simp add: referential_integrity_def delete_acoes_def prisma_defs)
    next
      case False
      then have "alocacao.acaoId al \<noteq> i" if "al \<in> set (alocacoes s)" for al
        using that by (auto simp: list_ex_iff)
      with assms Some True False show ?thesis
        by (simp add: referential_integrity_def delete_acoes_def prisma_defs list_all_iff
            list_ex_filter_other)
    qed
  qed
qed

lemma integrity_put_alocacoes:
  assumes "referential_integrity s"
  shows "referential_integrity (snd (put_alocacoes i b s))"
proof -
  have "referential_integrity (s'\<lparr>alocacoes := xs\<rparr>)"
    if "clientes s' = clientes s" "acoes s' = acoes s"
      "xs = map (\<lambda>al. if alocacao.id al = i then patch_alocacao q v c al else al) (alocacoes s)"
    for s' xs q v c
    using assms that
      list_all_patch_alocacao
        [where P = "\<lambda>x. list_ex (\<lambda>c. cliente.id c = x) (clientes s)"
           and Q = "\<lambda>x. list_ex (\<lambda>a. acao.id a = x) (acoes s)" and i = i and q = q and v = v
           and c = c and xs = "alocacoes s"]
    by (simp add: referential_integrity_def)
  with assms show ?thesis
    by (auto simp: put_alocacoes_def prisma_defs referential_integrity_def
        split: option.splits prod.splits)
qed

lemma integrity_put_acoes:
  "referential_integrity s \<Longrightarrow> referential_integrity (snd (put_acoes i b s))"
  by (auto simp: referential_integrity_def put_acoes_def prisma_defs list_ex_patch_acao
      split: option.splits)

lemma integrity_put_clientes:
  "referential_integrity s \<Longrightarrow> referential_integrity (snd (put_clientes i b s))"
  by (auto simp: referential_integrity_def put_clientes_def prisma_defs list_ex_patch_cliente
      split: option.splits)

lemma integrity_post_clientes:
  "referential_integrity s \<Longrightarrow> referential_integrity (snd (post_clientes b s))"
  by (auto simp: referential_integrity_def post_clientes_def prisma_defs list_all_iff
      split: option.splits)

lemma integrity_reads:
  "referential_integrity s \<Longrightarrow> referential_integrity (snd (get_clientes_alocacoes cid s))"
  "referential_integrity s \<Longrightarrow> referential_integrity (snd (get_clientes_buscar q s))"
  by (auto simp: referential_integrity_def get_clientes_alocacoes_def get_clientes_buscar_def
      buscar_por_nome_def prisma_defs split: option.splits)

section \<open>The claims\<close>

subsection \<open>C1: creating an allocation\<close>

text \<open>
  C1 as stated, that an unknown customer and an unknown asset are answered 404 and an
  existing pair 409 for every validated body, fails where an id does not fit the
  \<^verbatim>\<open>Int\<close> column or a number does not fit its \<^verbatim>\<open>Decimal\<close> column. No customer has the
  id 2147483648 and the answer is 500; customer 1 exists, no asset has the id 2147483648 and
  the answer is 500; customer 1 already has an allocation of asset 1, and a second one with
  the quantity \<^verbatim>\<open>1e14\<close> is answered 500. In none of the three is a row inserted.
\<close>

theorem post_clientes_alocacoes_out_of_range:
  "\<not> list_ex (\<lambda>c. cliente.id c = 2147483648) (clientes carteira) \<and>
   post_clientes_alocacoes 2147483648
     \<lparr>create_alocacao_input.acaoId = 1, create_alocacao_input.quantidade = Finite 100,
      create_alocacao_input.valor_medio_aquisicao = Finite 28,
      create_alocacao_input.data_ultima_compra = 0\<rparr>
     carteira
     = (reply 500 (MessageBody ''Erro interno ao criar alocacao.'' None),
        carteira\<lparr>log := [(Cliente, FindUnique)]\<rparr>) \<and>
   \<not> list_ex (\<lambda>a. acao.id a = 2147483648) (acoes carteira) \<and>
   post_clientes_alocacoes 1
     \<lparr>create_alocacao_input.acaoId = 2147483648, create_alocacao_input.quantidade = Finite 100,
      create_alocacao_input.valor_medio_aquisicao = Finite 28,
      create_alocacao_input.data_ultima_compra = 0\<rparr>
     carteira
     = (reply 500 (MessageBody ''Erro interno ao criar alocacao.'' None),
        carteira\<lparr>log := [(Cliente, FindUnique), (Acao, FindUnique)]\<rparr>) \<and>
   list_ex (\<lambda>al. alocacao.clienteId al = 1 \<and> alocacao.acaoId al = 1) (alocacoes carteira) \<and>
   post_clientes_alocacoes 1
     \<lparr>create_alocacao_input.acaoId = 1, create_alocacao_input.quantidade = Finite 100000000000000,
      create_alocacao_input.valor_medio_aquisicao = Finite 28,
      create_alocacao_input.data_ultima_compra = 0\<rparr>
     carteira
     = (reply 500 (MessageBody ''Erro interno ao criar alocacao.'' None),
        carteira\<lparr>seq_alocacao := 2,
                 log := [(Cliente, FindUnique), (Acao, FindUnique), (AlocacaoCliente, Create)]\<rparr>)"
  by (simp add: post_clientes_alocacoes_def prisma_defs catch_defs int4_def js_decimal_def)

text \<open>
  C1, amended. \<^verbatim>\<open>POST /clientes/:id/alocacoes\<close> with a validated body looks the customer
  up first: when the customer id fits the \<^verbatim>\<open>Int\<close> column and no customer has it, the
  answer is 404 and no other call is made. Then it looks the asset up: when the asset id
  fits the column and no asset has it, the answer is 404, again without an insert. When both
  exist and the quantity, the price and the date of the body are values that their columns
  take, the answer is 409 with the tables unchanged if the customer already has an
  allocation of the asset, and otherwise 201 with the new allocation as its row keeps it
  (the quantity rounded to four decimals, the price to two, the date as the column keeps it)
  and the record of the asset it refers to (its name, ticker and current price among its
  fields); the allocation is the one row added. An id or a value that its column does not
  take is answered 500 with the tables unchanged.
\<close>

theorem post_clientes_alocacoes_result:
  "post_clientes_alocacoes cid b s =
     (if \<not> int4 cid
      then (reply 500 (MessageBody ''Erro interno ao criar alocacao.'' None),
            s\<lparr>log := log s @ [(Cliente, FindUnique)]\<rparr>)
      else if \<not> list_ex (\<lambda>c. cliente.id c = cid) (clientes s)
      then (reply 404 (MessageBody ''Cliente nao encontrado.'' None),
            s\<lparr>log := log s @ [(Cliente, FindUnique)]\<rparr>)
      else if \<not> int4 (create_alocacao_input.acaoId b)
      then (reply 500 (MessageBody ''Erro interno ao criar alocacao.'' None),
            s\<lparr>log := log s @ [(Cliente, FindUnique), (Acao, FindUnique)]\<rparr>)
      else if \<not> list_ex (\<lambda>a. acao.id a = create_alocacao_input.acaoId b) (acoes s)
      then (reply 404 (MessageBody ''Acao nao encontrada.'' None),
            s\<lparr>log := log s @ [(Cliente, FindUnique), (Acao, FindUnique)]\<rparr>)
      else if js_decimal (create_alocacao_input.quantidade b) = None \<or>
              js_decimal (create_alocacao_input.valor_medio_aquisicao b) = None \<or>
              db_date s (create_alocacao_input.data_ultima_compra b) = None
      then (reply 500 (MessageBody ''Erro interno ao criar alocacao.'' None),
            s\<lparr>log := log s @ [(Cliente, FindUnique), (Acao, FindUnique), (AlocacaoCliente, Create)]\<rparr>)
      else if pg_numeric 18 4 (the (js_decimal (create_alocacao_input.quantidade b))) = None \<or>
              pg_numeric 12 2 (the (js_decimal (create_alocacao_input.valor_medio_aquisicao b))) = None
      then (reply 500 (MessageBody ''Erro interno ao criar alocacao.'' None),
            s\<lparr>seq_alocacao := seq_alocacao s + 1,
              log := log s @ [(Cliente, FindUnique), (Acao, FindUnique), (AlocacaoCliente, Create)]\<rparr>)
      else if list_ex (\<lambda>al. alocacao.clienteId al = cid \<and>
                             alocacao.acaoId al = create_alocacao_input.acaoId b) (alocacoes s)
      then (reply 409 (MessageBody ''Este cliente ja possui uma alocacao para esta acao.'' None),
            s\<lparr>seq_alocacao := seq_alocacao s + 1,
              log := log s @ [(Cliente, FindUnique), (Acao, FindUnique), (AlocacaoCliente, Create)]\<rparr>)
      else
        (reply 201
           (AlocacaoBody
              \<lparr>alocacao.id = seq_alocacao s + 1,
               alocacao.clienteId = cid,
               alocacao.acaoId = create_alocacao_input.acaoId b,
               alocacao.quantidade =
                 the (pg_numeric 18 4 (the (js_decimal (create_alocacao_input.quantidade b)))),
               alocacao.valor_medio_aquisicao =
                 the (pg_numeric 12 2 (the (js_decimal (create_alocacao_input.valor_medio_aquisicao b)))),
               alocacao.data_ultima_compra =
                 the (db_date s (create_alocacao_input.data_ultima_compra b))\<rparr>
              (Some (the (find (\<lambda>a. acao.id a = create_alocacao_input.acaoId b) (acoes s))))),
         s\<lparr>alocacoes := alocacoes s @
              [\<lparr>alocacao.id = seq_alocacao s + 1,
                alocacao.clienteId = cid,
                alocacao.acaoId = create_alocacao_input.acaoId b,
                alocacao.quantidade =
                  the (pg_numeric 18 4 (the (js_decimal (create_alocacao_input.quantidade b)))),
                alocacao.valor_medio_aquisicao =
                  the (pg_numeric 12 2 (the (js_decimal (create_alocacao_input.valor_medio_aquisicao b)))),
                alocacao.data_ultima_compra =
                  the (db_date s (create_alocacao_input.data_ultima_compra b))\<rparr>],
            seq_alocacao := seq_alocacao s + 1,
            log := log s @ [(Cliente, FindUnique), (Acao, FindUnique), (AlocacaoCliente, Create)]\<rparr>))"
proof (cases "int4 cid")
  case False
  then show ?thesis
    by (simp add: post_clientes_alocacoes_def prisma_cliente_findUnique_id_def catch_defs
        record_call_def)
next
  case ic: True
  show ?thesis
  proof (cases "find (\<lambda>c. cliente.id c = cid) (clientes s)")
    case None
    with ic show ?thesis
      by (simp add: post_clientes_alocacoes_def prisma_cliente_findUnique_id_def
          find_None_list_ex [symmetric] record_call_def)
  next
    case c: (Some c)
    then have ec: "list_ex (\<lambda>c. cliente.id c = cid) (clientes s)"
      by (rule find_Some_list_ex)
    show ?thesis
    proof (cases "int4 (create_alocacao_input.acaoId b)")
      case False
      with ic c ec show ?thesis
        by (simp add: post_clientes_alocacoes_def prisma_cliente_findUnique_id_def
            prisma_acao_findUnique_id_def catch_defs record_call_def)
    next
      case ia: True
      show ?thesis
      proof (cases "find (\<lambda>a. acao.id a = create_alocacao_input.acaoId b) (acoes s)")
        case None
        with ic c ec ia show ?thesis
          by (simp add: post_clientes_alocacoes_def prisma_cliente_findUnique_id_def
              prisma_acao_findUnique_id_def find_None_list_ex [symmetric] record_call_def)
      next
        case a: (Some a)
        then have ea: "list_ex (\<lambda>a. acao.id a = create_alocacao_input.acaoId b) (acoes s)"
          by (rule find_Some_list_ex)
        from ic c ec ia a ea show ?thesis
          by (auto simp: post_clientes_alocacoes_def prisma_cliente_findUnique_id_def
              prisma_acao_findUnique_id_def prisma_alocacaoCliente_create_def Let_def
              record_call_def catch_defs split: option.splits)
      qed
    qed
  qed
qed

text \<open>
  The outcomes on the small database: an unknown customer, an unknown asset, a second
  allocation of the same asset, the first allocation of 100 units of PETR4 at 28.00, and an
  allocation of 0.00005 units at 28.004 bought at half past two in the afternoon of
  2024-01-10, which its row keeps as 0.0001 units at 28.00 on 2024-01-10.
\<close>

theorem post_clientes_alocacoes_witness:
  "post_clientes_alocacoes 2
     \<lparr>create_alocacao_input.acaoId = 1, create_alocacao_input.quantidade = Finite 100,
      create_alocacao_input.valor_medio_aquisicao = Finite 28,
      create_alocacao_input.data_ultima_compra = 0\<rparr>
     sem_alocacoes
     = (reply 404 (MessageBody ''Cliente nao encontrado.'' None),
        sem_alocacoes\<lparr>log := [(Cliente, FindUnique)]\<rparr>) \<and>
   post_clientes_alocacoes 1
     \<lparr>create_alocacao_input.acaoId = 2, create_alocacao_input.quantidade = Finite 100,
      create_alocacao_input.valor_medio_aquisicao = Finite 28,
      create_alocacao_input.data_ultima_compra = 0\<rparr>
     sem_alocacoes
     = (reply 404 (MessageBody ''Acao nao encontrada.'' None),
        sem_alocacoes\<lparr>log := [(Cliente, FindUnique), (Acao, FindUnique)]\<rparr>) \<and>
   post_clientes_alocacoes 1
     \<lparr>create_alocacao_input.acaoId = 1, create_alocacao_input.quantidade = Finite 5,
      create_alocacao_input.valor_medio_aquisicao = Finite 31,
      create_alocacao_input.data_ultima_compra = 0\<rparr>
     carteira
     = (reply 409 (MessageBody ''Este cliente ja possui uma alocacao para esta acao.'' None),
        carteira\<lparr>seq_alocacao := 2,
                 log := [(Cliente, FindUnique), (Acao, FindUnique), (AlocacaoCliente, Create)]\<rparr>) \<and>
   post_clientes_alocacoes 1
     \<lparr>create_alocacao_input.acaoId = 1, create_alocacao_input.quantidade = Finite 100,
      create_alocacao_input.valor_medio_aquisicao = Finite 28,
      create_alocacao_input.data_ultima_compra = 0\<rparr>
     sem_alocacoes
     = (reply 201 (AlocacaoBody ana_petr4 (Some petr4)),
        carteira\<lparr>log := [(Cliente, FindUnique), (Acao, FindUnique), (AlocacaoCliente, Create)]\<rparr>) \<and>
   post_clientes_alocacoes 1
     \<lparr>create_alocacao_input.acaoId = 1, create_alocacao_input.quantidade = Finite (1 / 20000),
      create_alocacao_input.valor_medio_aquisicao = Finite (7001 / 250),
      create_alocacao_input.data_ultima_compra = 1704897000000\<rparr>
     sem_alocacoes
     = (reply 201
          (AlocacaoBody
             \<lparr>alocacao.id = 1, alocacao.clienteId = 1, alocacao.acaoId = 1,
              alocacao.quantidade = 1 / 10000, alocacao.valor_medio_aquisicao = 28,
              alocacao.data_ultima_compra = 1704844800000\<rparr>
             (Some petr4)),
        sem_alocacoes
          \<lparr>alocacoes :=
             [\<lparr>alocacao.id = 1, alocacao.clienteId = 1, alocacao.acaoId = 1,
               alocacao.quantidade = 1 / 10000, alocacao.valor_medio_aquisicao = 28,
               alocacao.data_ultima_compra = 1704844800000\<rparr>],
           seq_alocacao := 1,
           log := [(Cliente, FindUnique), (Acao, FindUnique), (AlocacaoCliente, Create)]\<rparr>)"
  using
    post_clientes_alocacoes_result [of 2
      "\<lparr>create_alocacao_input.acaoId = 1, create_alocacao_input.quantidade = Finite 100,
        create_alocacao_input.valor_medio_aquisicao = Finite 28,
        create_alocacao_input.data_ultima_compra = 0\<rparr>"
      sem_alocacoes]
    post_clientes_alocacoes_result [of 1
      "\<lparr>create_alocacao_input.acaoId = 2, create_alocacao_input.quantidade = Finite 100,
        create_alocacao_input.valor_medio_aquisicao = Finite 28,
        create_alocacao_input.data_ultima_compra = 0\<rparr>"
      sem_alocacoes]
    post_clientes_alocacoes_result [of 1
      "\<lparr>create_alocacao_input.acaoId = 1, create_alocacao_input.quantidade = Finite 5,
        create_alocacao_input.valor_medio_aquisicao = Finite 31,
        create_alocacao_input.data_ultima_compra = 0\<rparr>"
      carteira]
    post_clientes_alocacoes_result [of 1
      "\<lparr>create_alocacao_input.acaoId = 1, create_alocacao_input.quantidade = Finite 100,
        create_alocacao_input.valor_medio_aquisicao = Finite 28,
        create_alocacao_input.data_ultima_compra = 0\<rparr>"
      sem_alocacoes]
    post_clientes_alocacoes_result [of 1
      "\<lparr>create_alocacao_input.acaoId = 1, create_alocacao_input.quantidade = Finite (1 / 20000),
        create_alocacao_input.valor_medio_aquisicao = Finite (7001 / 250),
        create_alocacao_input.data_ultima_compra = 1704897000000\<rparr>"
      sem_alocacoes]
  by (simp add: int4_def js_decimal_def pg_numeric_def round_scale_def)

subsection \<open>C2: an update with an empty body\<close>

text \<open>
  In the full route set no update handler looks at the keys of its body: whatever the body,
  the handler makes its \<^verbatim>\<open>update\<close> call and never answers 400. The handler of
  \<^verbatim>\<open>PUT /clientes/:id\<close> in the first version of \<^verbatim>\<open>server.ts\<close> answers 400 to the
  empty body before any call.
\<close>

lemma put_never_400:
  "status (fst (put_clientes i u s)) \<noteq> 400"
  "log (snd (put_clientes i u s)) = log s @ [(Cliente, Update)]"
  "status (fst (put_acoes i ua s)) \<noteq> 400"
  "log (snd (put_acoes i ua s)) = log s @ [(Acao, Update)]"
  "status (fst (put_alocacoes i ual s)) \<noteq> 400"
  "log (snd (put_alocacoes i ual s)) = log s @ [(AlocacaoCliente, Update)]"
  by (simp_all add: put_clientes_def put_acoes_def put_alocacoes_def prisma_defs reply_def
      split: option.splits prod.splits sum.splits)

lemma put_clientes_first_guard:
  "put_clientes_first i corpo_vazio_cliente s =
     (reply 400 (MessageBody ''Nenhum dado fornecido para atualizacao.'' None), s)"
  by (simp add: put_clientes_first_def object_keys_update_cliente_def)

text \<open>
  C2 says that \<^verbatim>\<open>PUT /clientes/:id\<close>, \<^verbatim>\<open>PUT /acoes/:id\<close> and \<^verbatim>\<open>PUT /alocacoes/:id\<close>
  answer 400 to a validated body that is the empty object, with no persistence call. On the
  small database the three handlers of the full route set make their \<^verbatim>\<open>update\<close> call
  and answer 200 with the unchanged record, where the first version of
  \<^verbatim>\<open>PUT /clientes/:id\<close> answers 400 with no call.
\<close>

theorem put_empty_body_full_route_set:
  "put_acoes 1 corpo_vazio_acao carteira
     = (reply 200 (AcaoBody petr4), carteira\<lparr>log := [(Acao, Update)]\<rparr>) \<and>
   put_alocacoes 1 corpo_vazio_alocacao carteira
     = (reply 200 (AlocacaoBody ana_petr4 (Some petr4)),
        carteira\<lparr>log := [(AlocacaoCliente, Update)]\<rparr>) \<and>
   put_clientes 1 corpo_vazio_cliente carteira
     = (reply 200 (ClienteBody ana), carteira\<lparr>log := [(Cliente, Update)]\<rparr>) \<and>
   put_clientes_first 1 corpo_vazio_cliente carteira
     = (reply 400 (MessageBody ''Nenhum dado fornecido para atualizacao.'' None), carteira)"
  by (simp add: put_acoes_def put_alocacoes_def put_clientes_def put_clientes_first_def prisma_defs
      patch_acao_def patch_alocacao_def patch_cliente_def object_keys_update_cliente_def
      int4_def pg_text_optional_def convert_optional_def)

subsection \<open>C3: the body of a conflict\<close>

text \<open>
  No handler of the full route set puts \<^verbatim>\<open>fields\<close> in a body, whatever the outcome.
\<close>

lemma full_route_set_no_fields:
  "fields_of (body (fst (post_clientes b s))) = None"
  "fields_of (body (fst (put_clientes i u s))) = None"
  "fields_of (body (fst (put_acoes i ua s))) = None"
  "fields_of (body (fst (delete_acoes i s))) = None"
  "fields_of (body (fst (post_clientes_alocacoes i ca s))) = None"
  "fields_of (body (fst (put_alocacoes i ual s))) = None"
  by (simp_all add: post_clientes_def put_clientes_def put_acoes_def delete_acoes_def
      post_clientes_alocacoes_def put_alocacoes_def prisma_defs fields_of_def reply_def
      post_clientes_alocacoes_catch_def
      split: option.splits prod.splits sum.splits)

text \<open>
  C3 says that the body of every 409 has a \<^verbatim>\<open>message\<close> and a \<^verbatim>\<open>fields\<close> naming the
  constraint. Creating a second customer with the tax identifier of the first is answered
  409 with a message only by the full route set, and with \<^verbatim>\<open>fields\<close> by the first
  version of the same route; deleting an asset that is allocated is answered 409 with a
  message only. The refused insert has used an id of the sequence.
\<close>

theorem conflict_body_full_route_set:
  "post_clientes bia carteira
     = (reply 409 (MessageBody ''Conflito: Ja existe um cliente com este cpf_cnpj.'' None),
        carteira\<lparr>seq_cliente := 2, log := [(Cliente, Create)]\<rparr>) \<and>
   post_clientes_first bia carteira
     = (reply 409
          (MessageBody ''Erro de conflito: Ja existe um cliente com este cpf_cnpj.'' (Some ''cpf_cnpj'')),
        carteira\<lparr>seq_cliente := 2, log := [(Cliente, Create)]\<rparr>) \<and>
   delete_acoes 1 carteira
     = (reply 409
          (MessageBody ''Nao e possivel deletar a acao pois ela esta alocada a um ou mais clientes.'' None),
        carteira\<lparr>log := [(Acao, Delete)]\<rparr>)"
  by (simp add: post_clientes_def post_clientes_first_def delete_acoes_def prisma_defs
      join_target_def template_def catch_defs int4_def pg_text_def)

subsection \<open>C4: validation of the search query\<close>

text \<open>
  C4 as stated, that validation succeeds exactly when one of the two fields is supplied,
  fails on the query \<^verbatim>\<open>?nome_completo=&cpf_cnpj=12345678901\<close>: both fields are supplied,
  the schema accepts the query, and the route answers 200 with the customer of that tax
  identifier.
\<close>

theorem buscar_both_supplied_accepted:
  "\<not> isl (buscarClienteQuerySchema
            [''nome_completo'' \<mapsto> JStr [], ''cpf_cnpj'' \<mapsto> JStr ''12345678901'']) \<and>
   [''nome_completo'' \<mapsto> JStr [], ''cpf_cnpj'' \<mapsto> JStr ''12345678901''] ''nome_completo'' \<noteq> None \<and>
   [''nome_completo'' \<mapsto> JStr [], ''cpf_cnpj'' \<mapsto> JStr ''12345678901''] ''cpf_cnpj'' \<noteq> None \<and>
   route_get_clientes_buscar
     [''nome_completo'' \<mapsto> JStr [], ''cpf_cnpj'' \<mapsto> JStr ''12345678901''] carteira
     = (reply 200 (ClienteBody ana), carteira\<lparr>log := [(Cliente, FindUnique)]\<rparr>)"
  by (simp add: buscarClienteQuerySchema_def z_string_optional_def buscar_refinements_def truthy_def
      route_get_clientes_buscar_def get_clientes_buscar_def buscar_por_nome_def prisma_defs
      pg_text_def)

text \<open>
  C4, amended. The schema accepts a query exactly when each of the two fields is absent or
  a string and exactly one of them is a string that is not empty. A query that the schema
  rejects is answered 400 with the messages of the failed checks, of which there is at
  least one, and the database is left as it was, its log of persistence calls included.
  When neither field is a non-empty string the message asks for one of them, and when both
  are, it asks for only one.
\<close>

theorem buscar_query_validation:
  "(\<not> isl (buscarClienteQuerySchema q) \<longleftrightarrow>
      string_or_absent (q ''nome_completo'') \<and> string_or_absent (q ''cpf_cnpj'') \<and>
      nonempty_string (q ''nome_completo'') \<noteq> nonempty_string (q ''cpf_cnpj'')) \<and>
   (isl (buscarClienteQuerySchema q) \<longrightarrow>
      issues (buscarClienteQuerySchema q) \<noteq> [] \<and>
      route_get_clientes_buscar q s =
        (reply 400 (ValidationBody (issues (buscarClienteQuerySchema q))), s)) \<and>
   (string_or_absent (q ''nome_completo'') \<and> string_or_absent (q ''cpf_cnpj'') \<and>
    \<not> nonempty_string (q ''nome_completo'') \<and> \<not> nonempty_string (q ''cpf_cnpj'') \<longrightarrow>
      buscarClienteQuerySchema q = Inl [''Forneca 'nome_completo' ou 'cpf_cnpj' para a busca.'']) \<and>
   (nonempty_string (q ''nome_completo'') \<and> nonempty_string (q ''cpf_cnpj'') \<longrightarrow>
      buscarClienteQuerySchema q =
        Inl [''Forneca apenas 'nome_completo' OU 'cpf_cnpj' para a busca, nao ambos simultaneamente.''])"
  using buscar_accepts_iff [of q] buscar_issues_nonempty [of q] route_buscar_rejected [of q s]
    buscar_neither [of q] buscar_both [of q]
  by blast

text \<open>
  The query \<^verbatim>\<open>?nome_completo=Ana&cpf_cnpj=12345678901\<close>, with both fields not empty, is
  rejected: 400 with the second message, and no call.
\<close>

theorem buscar_query_validation_witness:
  "isl (buscarClienteQuerySchema
          [''nome_completo'' \<mapsto> JStr ''Ana'', ''cpf_cnpj'' \<mapsto> JStr ''12345678901'']) \<and>
   nonempty_string ([''nome_completo'' \<mapsto> JStr ''Ana'', ''cpf_cnpj'' \<mapsto> JStr ''12345678901'']
                      ''nome_completo'') \<and>
   nonempty_string ([''nome_completo'' \<mapsto> JStr ''Ana'', ''cpf_cnpj'' \<mapsto> JStr ''12345678901'']
                      ''cpf_cnpj'') \<and>
   route_get_clientes_buscar
     [''nome_completo'' \<mapsto> JStr ''Ana'', ''cpf_cnpj'' \<mapsto> JStr ''12345678901''] carteira
     = (reply 400
          (ValidationBody
             [''Forneca apenas 'nome_completo' OU 'cpf_cnpj' para a busca, nao ambos simultaneamente.'']),
        carteira)"
proof -
  let ?q = "[''nome_completo'' \<mapsto> JStr ''Ana'', ''cpf_cnpj'' \<mapsto> JStr ''12345678901'']"
  have n: "nonempty_string (?q ''nome_completo'')" and c: "nonempty_string (?q ''cpf_cnpj'')"
    by (simp_all add: nonempty_string_def)
  from buscar_query_validation [of ?q carteira] n c
  have r: "buscarClienteQuerySchema ?q =
      Inl [''Forneca apenas 'nome_completo' OU 'cpf_cnpj' para a busca, nao ambos simultaneamente.'']"
    by blast
  then have i: "isl (buscarClienteQuerySchema ?q)"
    by simp
  with buscar_query_validation [of ?q carteira]
  have "route_get_clientes_buscar ?q carteira =
      (reply 400 (ValidationBody (issues (buscarClienteQuerySchema ?q))), carteira)"
    by blast
  with r have "route_get_clientes_buscar ?q carteira =
      (reply 400
         (ValidationBody
            [''Forneca apenas 'nome_completo' OU 'cpf_cnpj' para a busca, nao ambos simultaneamente.'']),
       carteira)"
    by (simp add: issues_def)
  with i n c show ?thesis by blast
qed

subsection \<open>C5: searching a customer\<close>




subsection \<open>C6: the tax identifier\<close>

text \<open>
  C6. The create schema and the update schema of a customer accept a string as
  \<^verbatim>\<open>cpf_cnpj\<close> exactly when it consists of 11 digits or of 14 digits: that is what the
  length bounds 11 and 18 and the pattern leave.
\<close>

theorem cpf_cnpj_accepted_iff:
  "(\<not> isl (createClienteSchema_cpf_cnpj (Some (JStr s))) \<longleftrightarrow>
      list_all is_digit s \<and> (length s = 11 \<or> length s = 14)) \<and>
   (\<not> isl (updateClienteSchema_cpf_cnpj (Some (JStr s))) \<longleftrightarrow>
      list_all is_digit s \<and> (length s = 11 \<or> length s = 14))"
  by (auto simp: createClienteSchema_cpf_cnpj_def createClienteSchema_cpf_cnpj_checks_def
      updateClienteSchema_cpf_cnpj_def updateClienteSchema_cpf_cnpj_checks_def rx_test_cpf_cnpj)

text \<open>
  Eleven digits are accepted; twelve digits, and eleven characters with a letter among
  them, are not.
\<close>

theorem cpf_cnpj_accepted_witness:
  "\<not> isl (createClienteSchema_cpf_cnpj (Some (JStr ''12345678901''))) \<and>
   \<not> isl (updateClienteSchema_cpf_cnpj (Some (JStr ''12345678000199''))) \<and>
   isl (createClienteSchema_cpf_cnpj (Some (JStr ''123456789012''))) \<and>
   isl (updateClienteSchema_cpf_cnpj (Some (JStr ''1234567890a'')))"
  using cpf_cnpj_accepted_iff [of "''12345678901''"] cpf_cnpj_accepted_iff [of "''12345678000199''"]
    cpf_cnpj_accepted_iff [of "''123456789012''"] cpf_cnpj_accepted_iff [of "''1234567890a''"]
  by (simp add: is_digit_def)

subsection \<open>C7: deleting an asset\<close>

text \<open>
  C7 as stated, that a valid id of no asset is answered 404, fails where the id does not fit
  the \<^verbatim>\<open>Int\<close> column: no asset has the id 2147483648, which the id schema accepts, and
  \<^verbatim>\<open>DELETE /acoes/2147483648\<close> is answered 500.
\<close>

theorem delete_acoes_out_of_range:
  "\<not> list_ex (\<lambda>a. acao.id a = 2147483648) (acoes carteira) \<and>
   delete_acoes 2147483648 carteira
     = (reply 500 (MessageBody ''Erro interno ao deletar acao.'' None),
        carteira\<lparr>log := [(Acao, Delete)]\<rparr>)"
  by (simp add: delete_acoes_def prisma_defs catch_defs int4_def)

text \<open>
  C7, amended. For an id that fits the \<^verbatim>\<open>Int\<close> column, \<^verbatim>\<open>DELETE /acoes/:id\<close> answers
  404 when there is no asset of that id; 409, with the message that the asset is allocated
  to one or more customers, when an allocation refers to the asset, and then the assets and
  the allocations are as they were; otherwise 200 with a confirmation, and the asset is gone
  from the table. An id that does not fit the column is answered 500. The allocations and
  the customers are never changed.
\<close>

theorem delete_acoes_result:
  "delete_acoes i s =
     (if \<not> int4 i
      then (reply 500 (MessageBody ''Erro interno ao deletar acao.'' None),
            s\<lparr>log := log s @ [(Acao, Delete)]\<rparr>)
      else if \<not> list_ex (\<lambda>a. acao.id a = i) (acoes s)
      then (reply 404 (MessageBody ''Acao nao encontrada para delecao.'' None),
            s\<lparr>log := log s @ [(Acao, Delete)]\<rparr>)
      else if list_ex (\<lambda>al. alocacao.acaoId al = i) (alocacoes s)
      then (reply 409
              (MessageBody ''Nao e possivel deletar a acao pois ela esta alocada a um ou mais clientes.''
                 None),
            s\<lparr>log := log s @ [(Acao, Delete)]\<rparr>)
      else (reply 200 (MessageBody ''Acao deletada com sucesso.'' None),
            s\<lparr>acoes := filter (\<lambda>a. acao.id a \<noteq> i) (acoes s), log := log s @ [(Acao, Delete)]\<rparr>))"
proof (cases "int4 i")
  case False
  then show ?thesis
    by (simp add: delete_acoes_def prisma_acao_delete_def catch_defs record_call_def)
next
  case True
  show ?thesis
  proof (cases "find (\<lambda>a. acao.id a = i) (acoes s)")
    case None
    with True show ?thesis
      by (simp add: delete_acoes_def prisma_acao_delete_def find_None_list_ex [symmetric]
          catch_defs record_call_def)
  next
    case (Some a)
    then have "list_ex (\<lambda>a. acao.id a = i) (acoes s)"
      by (rule find_Some_list_ex)
    with True Some show ?thesis
      by (simp add: delete_acoes_def prisma_acao_delete_def catch_defs record_call_def)
  qed
qed

text \<open>
  On the small database: asset 2 does not exist, asset 1 is allocated, and without the
  allocation asset 1 is deleted.
\<close>

theorem delete_acoes_witness:
  "delete_acoes 2 carteira
     = (reply 404 (MessageBody ''Acao nao encontrada para delecao.'' None),
        carteira\<lparr>log := [(Acao, Delete)]\<rparr>) \<and>
   delete_acoes 1 carteira
     = (reply 409
          (MessageBody ''Nao e possivel deletar a acao pois ela esta alocada a um ou mais clientes.''
             None),
        carteira\<lparr>log := [(Acao, Delete)]\<rparr>) \<and>
   delete_acoes 1 sem_alocacoes
     = (reply 200 (MessageBody ''Acao deletada com sucesso.'' None),
        sem_alocacoes\<lparr>acoes := [], log := [(Acao, Delete)]\<rparr>)"
  using delete_acoes_result [of 2 carteira] delete_acoes_result [of 1 carteira]
    delete_acoes_result [of 1 sem_alocacoes]
  by (simp add: int4_def)

subsection \<open>C8: listing the allocations of a customer\<close>

text \<open>
  C8 as stated, that every valid id is answered 200, fails where the id does not fit the
  \<^verbatim>\<open>Int\<close> column: \<^verbatim>\<open>GET /clientes/2147483648/alocacoes\<close>, for an id that the id schema
  accepts and no customer has, is answered 500.
\<close>

theorem get_clientes_alocacoes_out_of_range:
  "\<not> list_ex (\<lambda>c. cliente.id c = 2147483648) (clientes carteira) \<and>
   get_clientes_alocacoes 2147483648 carteira
     = (reply 500 (MessageBody ''Erro interno ao buscar alocacoes do cliente.'' None),
        carteira\<lparr>log := [(AlocacaoCliente, FindMany)]\<rparr>)"
  by (simp add: get_clientes_alocacoes_def prisma_defs int4_def)

text \<open>
  C8, amended. For an id that fits the \<^verbatim>\<open>Int\<close> column, \<^verbatim>\<open>GET /clientes/:id/alocacoes\<close>
  answers 200 with the allocations of that customer id, in the order of the table, each with
  the id, the name, the ticker and the current price of the asset of its \<^verbatim>\<open>acaoId\<close>; its
  one call is the \<^verbatim>\<open>findMany\<close> on the allocations, so the customer is not looked up. An id
  that does not fit the column is answered 500. In a database with referential integrity
  every entry of the list has the asset its allocation refers to, and for an id in the range
  that no customer has the answer is 200 with the empty list.
\<close>

theorem get_clientes_alocacoes_result:
  "get_clientes_alocacoes cid s =
     (if int4 cid
      then reply 200
             (AlocacoesBody
                (map (\<lambda>al. (al, map_option
                                   (\<lambda>a. \<lparr>acao_select.id = acao.id a,
                                         acao_select.nome_ativo = acao.nome_ativo a,
                                         acao_select.codigo_ticker = acao.codigo_ticker a,
                                         acao_select.valor_atual = acao.valor_atual a\<rparr>)
                                   (find (\<lambda>a. acao.id a = alocacao.acaoId al) (acoes s))))
                   (filter (\<lambda>al. alocacao.clienteId al = cid) (alocacoes s))))
      else reply 500 (MessageBody ''Erro interno ao buscar alocacoes do cliente.'' None),
      s\<lparr>log := log s @ [(AlocacaoCliente, FindMany)]\<rparr>) \<and>
   (referential_integrity s \<longrightarrow>
      list_all (\<lambda>(al, a). map_option acao_select.id a = Some (alocacao.acaoId al))
        (map (\<lambda>al. (al, map_option
                          (\<lambda>a. \<lparr>acao_select.id = acao.id a,
                                acao_select.nome_ativo = acao.nome_ativo a,
                                acao_select.codigo_ticker = acao.codigo_ticker a,
                                acao_select.valor_atual = acao.valor_atual a\<rparr>)
                          (find (\<lambda>a. acao.id a = alocacao.acaoId al) (acoes s))))
           (filter (\<lambda>al. alocacao.clienteId al = cid) (alocacoes s)))) \<and>
   (int4 cid \<and> referential_integrity s \<and> \<not> list_ex (\<lambda>c. cliente.id c = cid) (clientes s) \<longrightarrow>
      get_clientes_alocacoes cid s =
        (reply 200 (AlocacoesBody []), s\<lparr>log := log s @ [(AlocacaoCliente, FindMany)]\<rparr>))"
proof -
  have select: "select_acao =
      (\<lambda>a. \<lparr>acao_select.id = acao.id a,
            acao_select.nome_ativo = acao.nome_ativo a,
            acao_select.codigo_ticker = acao.codigo_ticker a,
            acao_select.valor_atual = acao.valor_atual a\<rparr>)"
    by (rule ext) (simp add: select_acao_def)
  have eq: "get_clientes_alocacoes cid s =
     (if int4 cid
      then reply 200
             (AlocacoesBody
                (map (\<lambda>al. (al, map_option
                                   (\<lambda>a. \<lparr>acao_select.id = acao.id a,
                                         acao_select.nome_ativo = acao.nome_ativo a,
                                         acao_select.codigo_ticker = acao.codigo_ticker a,
                                         acao_select.valor_atual = acao.valor_atual a\<rparr>)
                                   (find (\<lambda>a. acao.id a = alocacao.acaoId al) (acoes s))))
                   (filter (\<lambda>al. alocacao.clienteId al = cid) (alocacoes s))))
      else reply 500 (MessageBody ''Erro interno ao buscar alocacoes do cliente.'' None),
      s\<lparr>log := log s @ [(AlocacaoCliente, FindMany)]\<rparr>)"
    by (simp add: get_clientes_alocacoes_def prisma_alocacaoCliente_findMany_clienteId_def
        record_call_def select)
  moreover have "get_clientes_alocacoes cid s =
        (reply 200 (AlocacoesBody []), s\<lparr>log := log s @ [(AlocacaoCliente, FindMany)]\<rparr>)"
    if "int4 cid" "referential_integrity s" "\<not> list_ex (\<lambda>c. cliente.id c = cid) (clientes s)"
    using eq that(1) filter_no_match [OF integrity_no_alocacao [OF that(2,3)]] by simp
  ultimately show ?thesis
    using integrity_joined [of s cid] by blast
qed

text \<open>
  The small database has referential integrity and no customer 2: the allocations of
  customer 2 are the empty list, with status 200, and those of customer 1 are the one
  allocation with the four fields of PETR4.
\<close>

theorem get_clientes_alocacoes_witness:
  "int4 2 \<and> referential_integrity carteira \<and>
   \<not> list_ex (\<lambda>c. cliente.id c = 2) (clientes carteira) \<and>
   get_clientes_alocacoes 2 carteira
     = (reply 200 (AlocacoesBody []), carteira\<lparr>log := [(AlocacaoCliente, FindMany)]\<rparr>) \<and>
   get_clientes_alocacoes 1 carteira
     = (reply 200
          (AlocacoesBody
             [(ana_petr4,
               Some \<lparr>acao_select.id = 1, acao_select.nome_ativo = ''Petrobras PN'',
                     acao_select.codigo_ticker = ''PETR4'', acao_select.valor_atual = 30\<rparr>)]),
        carteira\<lparr>log := [(AlocacaoCliente, FindMany)]\<rparr>)"
proof -
  have r: "int4 2"
    by (simp add: int4_def)
  have i: "referential_integrity carteira"
    by (simp add: referential_integrity_def)
  have n: "\<not> list_ex (\<lambda>c. cliente.id c = 2) (clientes carteira)"
    by simp
  from get_clientes_alocacoes_result [of 2 carteira] r i n
  have "get_clientes_alocacoes 2 carteira =
      (reply 200 (AlocacoesBody []), carteira\<lparr>log := log carteira @ [(AlocacaoCliente, FindMany)]\<rparr>)"
    by blast
  moreover from get_clientes_alocacoes_result [of 1 carteira]
  have "get_clientes_alocacoes 1 carteira =
      (reply 200
         (AlocacoesBody
            [(ana_petr4,
              Some \<lparr>acao_select.id = 1, acao_select.nome_ativo = ''Petrobras PN'',
                    acao_select.codigo_ticker = ''PETR4'', acao_select.valor_atual = 30\<rparr>)]),
       carteira\<lparr>log := [(AlocacaoCliente, FindMany)]\<rparr>)"
    by (simp add: int4_def)
  ultimately show ?thesis
    using r i n by simp
qed

subsection \<open>C9: updating an allocation\<close>

text \<open>
  C9. Whatever the body of \<^verbatim>\<open>PUT /alocacoes/:id\<close>, the customers and the assets are
  unchanged, every allocation keeps its id, its customer and its asset, and the allocations
  of other ids are unchanged altogether: only the quantity, the average acquisition price
  and the date of the last purchase of the allocation of the given id can differ. The keys
  \<^verbatim>\<open>acaoId\<close> and \<^verbatim>\<open>clienteId\<close> of the body do not reach the call: the route does the
  same with any values for them as without them.
\<close>

theorem put_alocacoes_frame:
  "clientes (snd (route_put_alocacoes toNumber toDate i raw s)) = clientes s \<and>
   acoes (snd (route_put_alocacoes toNumber toDate i raw s)) = acoes s \<and>
   map (\<lambda>al. (alocacao.id al, alocacao.clienteId al, alocacao.acaoId al))
     (alocacoes (snd (route_put_alocacoes toNumber toDate i raw s))) =
   map (\<lambda>al. (alocacao.id al, alocacao.clienteId al, alocacao.acaoId al)) (alocacoes s) \<and>
   filter (\<lambda>al. alocacao.id al \<noteq> i) (alocacoes (snd (route_put_alocacoes toNumber toDate i raw s))) =
   filter (\<lambda>al. alocacao.id al \<noteq> i) (alocacoes s) \<and>
   route_put_alocacoes toNumber toDate i (raw(''acaoId'' := x, ''clienteId'' := y)) s =
   route_put_alocacoes toNumber toDate i raw s"
proof (cases "updateAlocacaoSchema toNumber toDate raw")
  case (Inl msgs)
  then show ?thesis
    by (simp add: route_put_alocacoes_def updateAlocacaoSchema_strips)
next
  case (Inr b)
  have r: "route_put_alocacoes toNumber toDate i raw s = put_alocacoes i b s"
    using Inr by (simp add: route_put_alocacoes_def)
  have links: "map (\<lambda>al. (alocacao.id al, alocacao.clienteId al, alocacao.acaoId al))
       (alocacoes (snd (put_alocacoes i b s))) =
     map (\<lambda>al. (alocacao.id al, alocacao.clienteId al, alocacao.acaoId al)) (alocacoes s)"
    using put_alocacoes_tables(3) [of i b s] by (elim disjE exE; simp only: map_patch_links)
  have others: "filter (\<lambda>al. alocacao.id al \<noteq> i) (alocacoes (snd (put_alocacoes i b s))) =
     filter (\<lambda>al. alocacao.id al \<noteq> i) (alocacoes s)"
    using put_alocacoes_tables(3) [of i b s] by (elim disjE exE; simp only: filter_patch_others)
  have strips: "route_put_alocacoes toNumber toDate i (raw(''acaoId'' := x, ''clienteId'' := y)) s =
     route_put_alocacoes toNumber toDate i raw s"
    by (simp add: route_put_alocacoes_def updateAlocacaoSchema_strips)
  show ?thesis
    using links others by (simp add: strips r put_alocacoes_tables(1,2))
qed

text \<open>
  The scenario of the spec: the quantity of the allocation is put to 150, in a body that also
  carries \<^verbatim>\<open>acaoId\<close> and \<^verbatim>\<open>clienteId\<close>. The answer is 200 with the new quantity and the
  asset as before.
\<close>

theorem put_alocacoes_frame_witness:
  "route_put_alocacoes numero_json data_json 1
     [''quantidade'' \<mapsto> JNum 150, ''acaoId'' \<mapsto> JNum 7, ''clienteId'' \<mapsto> JNum 9] carteira
     = (reply 200 (AlocacaoBody (ana_petr4\<lparr>alocacao.quantidade := 150\<rparr>) (Some petr4)),
        carteira\<lparr>alocacoes := [ana_petr4\<lparr>alocacao.quantidade := 150\<rparr>],
                 log := [(AlocacaoCliente, Update)]\<rparr>)"
  using put_alocacoes_frame [of numero_json data_json 1 "[''quantidade'' \<mapsto> JNum 150]" carteira
      "Some (JNum 7)" "Some (JNum 9)"]
  by (simp add: route_put_alocacoes_def updateAlocacaoSchema_def put_alocacoes_def prisma_defs
      patch_alocacao_def issues_def js_positive_def js_decimal_def convert_optional_def int4_def
      has_code_def)

subsection \<open>C10: an empty string in the search query\<close>

text \<open>
  C10. The refinements of the search query schema read an empty string, in either field, as
  they read an absent field. A query with \<^verbatim>\<open>nome_completo\<close> empty and \<^verbatim>\<open>cpf_cnpj\<close> not
  empty is accepted, and a query with only an empty \<^verbatim>\<open>nome_completo\<close> is rejected with
  the message of the query that has neither field; the same holds with the two fields
  exchanged. For every query, putting the empty string in the place of an absent field, or
  taking an empty string away, changes neither the outcome of the two refinements nor the
  messages of the schema.
\<close>

theorem buscar_empty_string_as_absent:
  "buscarClienteQuerySchema [''nome_completo'' \<mapsto> JStr [], ''cpf_cnpj'' \<mapsto> JStr (c # cs)]
     = Inr \<lparr>buscar_query.nome_completo = Some [], buscar_query.cpf_cnpj = Some (c # cs)\<rparr> \<and>
   buscarClienteQuerySchema [''nome_completo'' \<mapsto> JStr []]
     = Inl [''Forneca 'nome_completo' ou 'cpf_cnpj' para a busca.''] \<and>
   buscarClienteQuerySchema Map.empty
     = Inl [''Forneca 'nome_completo' ou 'cpf_cnpj' para a busca.''] \<and>
   buscar_refinements \<lparr>buscar_query.nome_completo = Some [], buscar_query.cpf_cnpj = v\<rparr>
     = buscar_refinements \<lparr>buscar_query.nome_completo = None, buscar_query.cpf_cnpj = v\<rparr> \<and>
   buscarClienteQuerySchema [''nome_completo'' \<mapsto> JStr (c # cs), ''cpf_cnpj'' \<mapsto> JStr []]
     = Inr \<lparr>buscar_query.nome_completo = Some (c # cs), buscar_query.cpf_cnpj = Some []\<rparr> \<and>
   buscarClienteQuerySchema [''cpf_cnpj'' \<mapsto> JStr []]
     = Inl [''Forneca 'nome_completo' ou 'cpf_cnpj' para a busca.''] \<and>
   buscar_refinements \<lparr>buscar_query.nome_completo = n, buscar_query.cpf_cnpj = Some []\<rparr>
     = buscar_refinements \<lparr>buscar_query.nome_completo = n, buscar_query.cpf_cnpj = None\<rparr> \<and>
   issues (buscarClienteQuerySchema (q(''nome_completo'' \<mapsto> JStr [])))
     = issues (buscarClienteQuerySchema (q(''nome_completo'' := None))) \<and>
   issues (buscarClienteQuerySchema (q(''cpf_cnpj'' \<mapsto> JStr [])))
     = issues (buscarClienteQuerySchema (q(''cpf_cnpj'' := None)))"
  by (simp add: buscarClienteQuerySchema_def z_string_optional_def buscar_refinements_def truthy_def
      issues_def split: option.splits json.splits sum.splits)

text \<open>
  The queries \<^verbatim>\<open>?nome_completo=&cpf_cnpj=12345678901\<close> and \<^verbatim>\<open>?nome_completo=Ana&cpf_cnpj=\<close>
  are accepted.
\<close>

theorem buscar_empty_string_witness:
  "buscarClienteQuerySchema [''nome_completo'' \<mapsto> JStr [], ''cpf_cnpj'' \<mapsto> JStr ''12345678901'']
     = Inr \<lparr>buscar_query.nome_completo = Some [], buscar_query.cpf_cnpj = Some ''12345678901''\<rparr> \<and>
   buscarClienteQuerySchema [''nome_completo'' \<mapsto> JStr ''Ana'', ''cpf_cnpj'' \<mapsto> JStr []]
     = Inr \<lparr>buscar_query.nome_completo = Some ''Ana'', buscar_query.cpf_cnpj = Some []\<rparr>"
  using buscar_empty_string_as_absent [of "CHR ''1''" "''2345678901''"]
    buscar_empty_string_as_absent [of "CHR ''A''" "''na''"]
  by simp

end
